theory Spec2Isabelle
  imports Main "HOL-Library.Sublist"
begin

section \<open>Values of the Python program\<close>

text \<open>
  A request body as \<open>request.get_json(silent=True)\<close> hands it to a handler: \<open>JNull\<close> is
  Python's \<open>None\<close> (no body, or a body that is not JSON), an object is the list of its
  items (keys distinct, as in a Python dict). Numbers are the integers; JSON's fractions
  are not modelled.
\<close>

datatype json =
    JNull
  | JBool bool
  | JNum int
  | JStr string
  | JArr "json list"
  | JObj "(string \<times> json) list"

text \<open>Python truthiness, as \<open>if payload:\<close> and \<open>if not x:\<close> test it.\<close>

fun truthy :: "json \<Rightarrow> bool" where
  "truthy JNull = False"
| "truthy (JBool b) = b"
| "truthy (JNum n) = (n \<noteq> 0)"
| "truthy (JStr s) = (s \<noteq> [])"
| "truthy (JArr xs) = (xs \<noteq> [])"
| "truthy (JObj kvs) = (kvs \<noteq> [])"

definition truthy_str :: "string option \<Rightarrow> bool" where
  "truthy_str x = (case x of None \<Rightarrow> False | Some s \<Rightarrow> s \<noteq> [])"

definition truthy_int :: "int option \<Rightarrow> bool" where
  "truthy_int x = (case x of None \<Rightarrow> False | Some n \<Rightarrow> n \<noteq> 0)"

text \<open>The exceptions no handler catches, and what a handler call ends with.\<close>

datatype exn = KeyError | TypeError | AttributeError

datatype 'a outcome = Raise exn | Return 'a

text \<open>
  \<open>response_builder(dict(message=...), status_code)\<close>: the message and the status code
  of the response (for \<open>validationErrors\<close> the message of the validation error);
  \<open>Formatted m v c\<close> is the message \<open>m.format(v)\<close>. The serialised \<open>data\<close> of a success
  response is not modelled.
\<close>

datatype response =
    Response string nat
  | Formatted string json nat

section \<open>The models (api/models.py)\<close>

text \<open>
  Tables are maps from the primary key \<open>uuid\<close> to the row; a relationship is followed by
  looking the foreign key up. Dates are day numbers. The timestamps \<open>created_at\<close>,
  \<open>modified_at\<close>, \<open>approved_at\<close> and the columns \<open>approver_id\<close>, \<open>reviewer_id\<close>, which no
  handler below reads or assigns, are left out.
\<close>

record society =
  db_total_points :: int
  db_used_points :: int

record user =
  user_society_id :: "string option"

record activity_type =
  at_name :: string
  at_value :: int
  supports_multiple_participants :: bool

record activity =
  act_activity_type_id :: string
  act_activity_date :: int

record logged_activity =
  la_name :: "string option"
  la_description :: "string option"
  la_photo :: "string option"
  la_value :: int
  la_status :: string
  la_activity_date :: int
  la_redeemed :: bool
  la_no_of_participants :: "int option"
  la_activity_type_id :: string
  la_user_id :: string
  la_society_id :: string
  la_activity_id :: "string option"

text \<open>
  The handlers of redemption requests assign values of the payload to the attributes
  \<open>name\<close>, \<open>description\<close>, \<open>value\<close> and \<open>status\<close> without validating them, so these hold a
  \<open>json\<close> (\<open>JNull\<close> for \<open>None\<close>). The columns \<open>comment\<close> and \<open>rejection\<close>, which no handler
  reads or assigns, are left out.

  Modelled from the spec: the model \<open>Country\<close> and the attribute \<open>country\<close> of a redemption
  request, which redemption_requests.py uses and models.py does not declare (the spec's
  "country/center"). A country is a row of Base's \<open>uuid\<close> and \<open>name\<close>; the table keeps the
  order of the rows, which \<open>first()\<close> reads.
\<close>

record redemption_request =
  rr_name :: json
  rr_description :: json
  rr_user_id :: string
  rr_society_id :: "string option"
  rr_country :: "string option"
  rr_value :: json
  rr_status :: json

record database =
  societies :: "string \<rightharpoonup> society"
  users :: "string \<rightharpoonup> user"
  activity_types :: "string \<rightharpoonup> activity_type"
  activities :: "string \<rightharpoonup> activity"
  logged_activities :: "string \<rightharpoonup> logged_activity"
  redemptions :: "string \<rightharpoonup> redemption_request"
  countries :: "(string \<times> string) list"

text \<open>\<open>Model.query.get(ident)\<close>: the row with its key, \<open>None\<close> for the identifier \<open>None\<close>.\<close>

definition query_get :: "(string \<rightharpoonup> 'a) \<Rightarrow> string option \<Rightarrow> (string \<times> 'a) option" where
  "query_get table ident =
     (case ident of None \<Rightarrow> None | Some k \<Rightarrow> map_option (Pair k) (table k))"

subsection \<open>Society: the points ledger\<close>

definition total_points :: "society \<Rightarrow> int" where
  "total_points s = db_total_points s"

text \<open>The setter of \<open>total_points\<close>: \<open>self._total_points += point.value\<close>.\<close>

definition set_total_points :: "society \<Rightarrow> logged_activity \<Rightarrow> society" where
  "set_total_points s point = s\<lparr>db_total_points := db_total_points s + la_value point\<rparr>"

definition used_points :: "society \<Rightarrow> int" where
  "used_points s = db_used_points s"

text \<open>
  The setter of \<open>used_points\<close>: \<open>self._used_points += redemption_request.value\<close>. An
  integer takes a number and a boolean (Python's \<open>True\<close> is 1); adding any other value to
  it raises \<open>TypeError\<close>.
\<close>

definition set_used_points :: "society \<Rightarrow> redemption_request \<Rightarrow> exn + society" where
  "set_used_points s redemption_request =
     (case rr_value redemption_request of
        JNum n \<Rightarrow> Inr (s\<lparr>db_used_points := db_used_points s + n\<rparr>)
      | JBool b \<Rightarrow> Inr (s\<lparr>db_used_points := db_used_points s + (if b then 1 else 0)\<rparr>)
      | _ \<Rightarrow> Inl TypeError)"

definition remaining_points :: "society \<Rightarrow> int" where
  "remaining_points s = total_points s - used_points s"

section \<open>Redemption requests (api/endpoints/redemption_requests.py)\<close>

text \<open>\<open>payload.get(key, None)\<close>: only a dict has \<open>get\<close>.\<close>

fun payload_get :: "json \<Rightarrow> string \<Rightarrow> exn + json" where
  "payload_get (JObj kvs) key = Inr (case map_of kvs key of None \<Rightarrow> JNull | Some v \<Rightarrow> v)"
| "payload_get _ key = Inl AttributeError"

text \<open>
  \<open>PointRedemptionAPI.post\<close>; \<open>new_uuid\<close> is the key \<open>generate_uuid\<close> gives the new row, whose
  status is the column's default.
\<close>

definition PointRedemptionAPI_post ::
  "database \<Rightarrow> string \<Rightarrow> string \<times> user \<Rightarrow> json \<Rightarrow> response outcome \<times> database" where
  "PointRedemptionAPI_post db new_uuid current_user payload =
     (if \<not> truthy payload then
        (Return (Response ''Redemption request must have data.'' 400), db)
      else case payload_get payload ''reason'' of
        Inl e \<Rightarrow> (Raise e, db)
      | Inr name \<Rightarrow>
         (case payload_get payload ''value'' of
            Inl e \<Rightarrow> (Raise e, db)
          | Inr val \<Rightarrow>
             (case payload_get payload ''center'' of
                Inl e \<Rightarrow> (Raise e, db)
              | Inr country_input \<Rightarrow>
                 (let country = find (\<lambda>c. JStr (snd c) = country_input) (countries db)
                  in if truthy name \<and> truthy val \<and> truthy country_input then
                       (Return (Response
                          ''Redemption request created. success ops will be in touch soon.'' 201),
                        db\<lparr>redemptions := (redemptions db)(new_uuid \<mapsto>
                          \<lparr>rr_name = name, rr_description = JNull,
                           rr_user_id = fst current_user,
                           rr_society_id =
                             map_option fst
                               (query_get (societies db) (user_society_id (snd current_user))),
                           rr_country = map_option fst country,
                           rr_value = val, rr_status = JStr ''pending''\<rparr>)\<rparr>)
                     else
                       (Return (Response
                          ''Redemption request name, value and country required'' 400), db)))))"

text \<open>\<open>PointRedemptionAPI.put\<close>: edit a redemption request.\<close>

definition PointRedemptionAPI_put ::
  "database \<Rightarrow> string option \<Rightarrow> json \<Rightarrow> response outcome \<times> database" where
  "PointRedemptionAPI_put db redeem_id payload =
     (if \<not> truthy payload then
        (Return (Response ''Data for editing must be provided'' 400), db)
      else if \<not> truthy_str redeem_id then
        (Return (Response ''Redemption Request to be edited must be provided'' 400), db)
      else case redemptions db (the redeem_id) of
        None \<Rightarrow> (Return (Response ''RedemptionRequest does not exist.'' 404), db)
      | Some redemp_request \<Rightarrow>
         (case payload_get payload ''name'' of
            Inl e \<Rightarrow> (Raise e, db)
          | Inr name \<Rightarrow>
             (case payload_get payload ''value'' of
                Inl e \<Rightarrow> (Raise e, db)
              | Inr val \<Rightarrow>
                 (case payload_get payload ''description'' of
                    Inl e \<Rightarrow> (Raise e, db)
                  | Inr desc \<Rightarrow>
                     (let r1 = (if truthy name then redemp_request\<lparr>rr_name := name\<rparr>
                                else redemp_request);
                          r2 = (if truthy val then r1\<lparr>rr_value := val\<rparr> else r1);
                          r3 = (if truthy desc then r2\<lparr>rr_description := desc\<rparr> else r2)
                      in (Return (Response ''RedemptionRequest edited successfully.'' 200),
                          db\<lparr>redemptions := (redemptions db)(the redeem_id \<mapsto> r3)\<rparr>))))))"

text \<open>\<open>PointRedemptionAPI.delete\<close>.\<close>

definition PointRedemptionAPI_delete ::
  "database \<Rightarrow> string option \<Rightarrow> response outcome \<times> database" where
  "PointRedemptionAPI_delete db redeem_id =
     (if \<not> truthy_str redeem_id then
        (Return (Response ''RedemptionRequest id must be provided.'' 400), db)
      else case redemptions db (the redeem_id) of
        None \<Rightarrow> (Return (Response ''RedemptionRequest does not exist.'' 404), db)
      | Some redemp_request \<Rightarrow>
         (Return (Response ''RedemptionRequest deleted successfully.'' 200),
          db\<lparr>redemptions := (redemptions db)(the redeem_id := None)\<rparr>))"

text \<open>
  \<open>payload["status"]\<close>: a dict without the key raises \<open>KeyError\<close>, which the handler
  catches; any other truthy JSON value is not subscriptable by a string and raises
  \<open>TypeError\<close>, which it does not.
\<close>

fun subscript_status :: "json \<Rightarrow> (exn + json)" where
  "subscript_status (JObj kvs) =
     (case map_of kvs ''status'' of None \<Rightarrow> Inl KeyError | Some v \<Rightarrow> Inr v)"
| "subscript_status _ = Inl TypeError"

text \<open>
  \<open>PointRedemptionRequestNumeration.put\<close>, the body under its decorators. The society
  credited is the one the requesting user belongs to now (\<open>user.society_id\<close>). The
  \<open>except KeyError\<close> branch hands the exception object to \<open>response_builder\<close> as
  \<open>errors\<close>; \<open>jsonify\<close> cannot serialise it and raises \<open>TypeError\<close>.
\<close>

definition PointRedemptionRequestNumeration_put ::
  "database \<Rightarrow> string option \<Rightarrow> json \<Rightarrow> response outcome \<times> database" where
  "PointRedemptionRequestNumeration_put db redeem_id payload =
     (if \<not> truthy payload then
        (Return (Response ''Data for editing must be provided'' 400), db)
      else if \<not> truthy_str redeem_id then
        (Return (Response ''RedemptionRequest id must be provided.'' 400), db)
      else case subscript_status payload of
        Inl KeyError \<Rightarrow> (Raise TypeError, db)
      | Inl e \<Rightarrow> (Raise e, db)
      | Inr status \<Rightarrow>
         (case redemptions db (the redeem_id) of
            None \<Rightarrow> (Return (Response ''Resource does not exist.'' 404), db)
          | Some redemp_request \<Rightarrow>
             if status = JStr ''approved'' then
               (case users db (rr_user_id redemp_request) of
                  None \<Rightarrow> (Raise AttributeError, db)
                | Some usr \<Rightarrow>
                   (case query_get (societies db) (user_society_id usr) of
                      None \<Rightarrow> (Raise AttributeError, db)
                    | Some (sid, soc) \<Rightarrow>
                       (case set_used_points soc redemp_request of
                          Inl e \<Rightarrow> (Raise e, db)
                        | Inr credited \<Rightarrow>
                           (Return (Formatted ''RedemptionRequest status changed to {}'' status
                              200),
                            db\<lparr>societies := (societies db)(sid \<mapsto> credited),
                               redemptions := (redemptions db)(the redeem_id \<mapsto>
                                  redemp_request\<lparr>rr_status := status\<rparr>)\<rparr>))))
             else
               (Return (Formatted ''RedemptionRequest status changed to {}'' status 200),
                db\<lparr>redemptions := (redemptions db)(the redeem_id \<mapsto>
                     redemp_request\<lparr>rr_status := status\<rparr>)\<rparr>)))"

text \<open>
  \<open>get_redemption_request\<close> of api/utils/helpers.py, for a caller who is not a society
  president: the lookup with the pending guard.
\<close>

definition get_redemption_request ::
  "database \<Rightarrow> string \<Rightarrow> response + redemption_request" where
  "get_redemption_request db redeem_id =
     (case redemptions db redeem_id of
        None \<Rightarrow> Inl (Response ''RedemptionRequest does not exist.'' 404)
      | Some redemp_request \<Rightarrow>
         if rr_status redemp_request \<noteq> JStr ''pending'' then
           Inl (Response ''RedemptionRequest already approved or rejected'' 403)
         else Inr redemp_request)"

section \<open>Activity valuation (api/utils/marshmallow_schemas.py, api/utils/helpers.py)\<close>

text \<open>
  The fields \<open>log_edit_activity_schema.load(payload)\<close> deserialises a payload to; a key
  that is absent from the result dict is \<open>None\<close>. Field-level deserialisation itself
  (marshmallow's) is not modelled.
\<close>

record log_data =
  ld_name :: "string option"
  ld_photo :: "string option"
  ld_description :: "string option"
  ld_activity_id :: "string option"
  ld_activity_type_id :: "string option"
  ld_date :: "int option"
  ld_no_of_participants :: "int option"

text \<open>
  The uuids of \<open>ActivityType.query.filter_by(supports_multiple_participants=True).all()\<close>.
\<close>

definition multi_participant_activities :: "database \<Rightarrow> string set" where
  "multi_participant_activities db =
     {u \<in> dom (activity_types db). supports_multiple_participants (the (activity_types db u))}"

text \<open>
  \<open>LogEditActivitySchema.validate_logged_activity\<close>: the message of the
  \<open>ValidationError\<close> it raises, \<open>None\<close> when the data pass.
\<close>

definition validate_logged_activity :: "database \<Rightarrow> log_data \<Rightarrow> string option" where
  "validate_logged_activity db data =
     (if (truthy_str (ld_activity_type_id data) \<and> truthy_str (ld_activity_id data)) \<or>
         (\<not> truthy_str (ld_activity_type_id data) \<and> \<not> truthy_str (ld_activity_id data)) then
        Some ''Please send either an activityTypeId or an activityId only''
      else if truthy_str (ld_activity_type_id data) \<and>
              \<not> (ld_date data \<noteq> None \<and> truthy_str (ld_description data)) then
        Some ''Please send a date and description''
      else if (case ld_activity_type_id data of
                 None \<Rightarrow> False
               | Some t \<Rightarrow> t \<in> multi_participant_activities db) \<and>
              \<not> truthy_int (ld_no_of_participants data) then
        Some ''Please send all required fields for this activity i.e. a date, number of participants and a description''
      else None)"

text \<open>\<open>ParsedResult\<close>; an entity is its uuid with its row.\<close>

record parsed_result =
  pr_activity :: "(string \<times> activity) option"
  pr_activity_type :: "string \<times> activity_type"
  pr_activity_date :: int
  pr_activity_value :: int

text \<open>
  The end of \<open>parse_log_activity_fields\<close>, which both branches reach: the staleness check
  on \<open>time_difference.days\<close> and the value. \<open>result['no_of_participants']\<close> raises
  \<open>KeyError\<close> when the key is absent.
\<close>

definition parse_log_activity_fields_end ::
  "int \<Rightarrow> log_data \<Rightarrow> (string \<times> activity) option \<Rightarrow> string \<times> activity_type \<Rightarrow> int \<Rightarrow>
   (response + parsed_result) outcome" where
  "parse_log_activity_fields_end today result activity activity_type activity_date =
     (if today - activity_date > 30 then
        Return (Inl (Response ''You're late. That activity happened more than 30 days ago'' 422))
      else if \<not> supports_multiple_participants (snd activity_type) then
        Return (Inr \<lparr>pr_activity = activity, pr_activity_type = activity_type,
                      pr_activity_date = activity_date,
                      pr_activity_value = at_value (snd activity_type)\<rparr>)
      else case ld_no_of_participants result of
        None \<Rightarrow> Raise KeyError
      | Some n \<Rightarrow>
         Return (Inr \<lparr>pr_activity = activity, pr_activity_type = activity_type,
                       pr_activity_date = activity_date,
                       pr_activity_value = at_value (snd activity_type) * n\<rparr>))"

text \<open>
  \<open>parse_log_activity_fields\<close>, with \<open>datetime.date.today()\<close> as the parameter \<open>today\<close>.
  It returns a response or a \<open>ParsedResult\<close>, which its callers tell apart by
  \<open>isinstance\<close>.
\<close>

definition parse_log_activity_fields ::
  "database \<Rightarrow> int \<Rightarrow> log_data \<Rightarrow> (response + parsed_result) outcome" where
  "parse_log_activity_fields db today result =
     (if truthy_str (ld_activity_id result) then
        (case query_get (activities db) (ld_activity_id result) of
           None \<Rightarrow> Return (Inl (Response ''Invalid activity id'' 422))
         | Some activity \<Rightarrow>
            (case query_get (activity_types db) (Some (act_activity_type_id (snd activity))) of
               None \<Rightarrow> Raise AttributeError
             | Some activity_type \<Rightarrow>
                if supports_multiple_participants (snd activity_type) \<and>
                   \<not> (truthy_int (ld_no_of_participants result) \<and>
                      truthy_str (ld_description result)) then
                  Return (Inl (Response
                    ''Please send the number of interviewees and their names in the description'' 400))
                else
                  parse_log_activity_fields_end today result (Some activity) activity_type
                    (act_activity_date (snd activity))))
      else
        (case ld_date result of
           None \<Rightarrow> Raise KeyError
         | Some activity_date \<Rightarrow>
            if activity_date > today then
              Return (Inl (Response ''Invalid activity date'' 422))
            else
              (case ld_activity_type_id result of
                 None \<Rightarrow> Raise KeyError
               | Some tid \<Rightarrow>
                  (case query_get (activity_types db) (Some tid) of
                     None \<Rightarrow> Return (Inl (Response ''Invalid activity type id'' 422))
                   | Some activity_type \<Rightarrow>
                      parse_log_activity_fields_end today result None activity_type
                        activity_date))))"

section \<open>Logged activities (api/endpoints/logged_activities.py)\<close>

text \<open>
  The handlers below are the bodies under \<open>token_required\<close> and \<open>roles_required\<close>;
  \<open>g.current_user\<close> is the entity \<open>current_user\<close>. \<open>save\<close> and \<open>delete\<close> are taken to
  succeed. A payload of the submission and edit handlers is \<open>None\<close> when it is falsy and
  otherwise the fields the schema deserialises it to.
\<close>

text \<open>\<open>LoggedActivitiesAPI.post\<close>; \<open>new_uuid\<close> is the key \<open>generate_uuid\<close> gives the new row.\<close>

definition LoggedActivitiesAPI_post ::
  "database \<Rightarrow> int \<Rightarrow> string \<Rightarrow> string \<times> user \<Rightarrow> log_data option \<Rightarrow>
   response outcome \<times> database" where
  "LoggedActivitiesAPI_post db today new_uuid current_user payload =
     (case payload of
        None \<Rightarrow> (Return (Response ''Data for creation must be provided.'' 400), db)
      | Some result \<Rightarrow>
         (case validate_logged_activity db result of
            Some errors \<Rightarrow> (Return (Response errors 400), db)
          | None \<Rightarrow>
             (case query_get (societies db) (user_society_id (snd current_user)) of
                None \<Rightarrow>
                  (Return (Response ''You are not a member of any society yet'' 422), db)
              | Some society \<Rightarrow>
                 (case parse_log_activity_fields db today result of
                    Raise e \<Rightarrow> (Raise e, db)
                  | Return (Inl parsed_result) \<Rightarrow> (Return parsed_result, db)
                  | Return (Inr parsed_result) \<Rightarrow>
                     (let logged_activity =
                        \<lparr>la_name = ld_name result,
                         la_description = ld_description result,
                         la_photo = ld_photo result,
                         la_value = pr_activity_value parsed_result,
                         la_status = ''in review'',
                         la_activity_date = pr_activity_date parsed_result,
                         la_redeemed = False,
                         la_no_of_participants = None,
                         la_activity_type_id = fst (pr_activity_type parsed_result),
                         la_user_id = fst current_user,
                         la_society_id = fst society,
                         la_activity_id = map_option fst (pr_activity parsed_result)\<rparr>
                      in if at_name (snd (pr_activity_type parsed_result)) =
                            ''Bootcamp Interviews'' then
                           (case ld_no_of_participants result of
                              None \<Rightarrow> (Raise KeyError, db)
                            | Some n \<Rightarrow>
                               if n = 0 then
                                 (Return (Response
                                    ''Data for creation must be provided. (no_of_participants)''
                                    400), db)
                               else
                                 (Return (Response ''Activity logged successfully'' 201),
                                  db\<lparr>logged_activities := (logged_activities db)(new_uuid \<mapsto>
                                       logged_activity\<lparr>la_no_of_participants := Some n\<rparr>)\<rparr>))
                         else
                           (Return (Response ''Activity logged successfully'' 201),
                            db\<lparr>logged_activities :=
                                 (logged_activities db)(new_uuid \<mapsto> logged_activity)\<rparr>))))))"

text \<open>
  \<open>LoggedActivity.query.filter_by(uuid=logged_activity_id,
  user_id=g.current_user.uuid).one_or_none()\<close>.
\<close>

definition own_logged_activity ::
  "database \<Rightarrow> string option \<Rightarrow> string \<times> user \<Rightarrow> (string \<times> logged_activity) option" where
  "own_logged_activity db logged_activity_id current_user =
     (case query_get (logged_activities db) logged_activity_id of
        None \<Rightarrow> None
      | Some logged_activity \<Rightarrow>
         if la_user_id (snd logged_activity) = fst current_user then Some logged_activity
         else None)"

text \<open>
  The two defaults the edit handler writes into the result dict before it parses it: the
  stored activity type when none is sent, the stored date when none is sent.
\<close>

definition edit_defaults :: "logged_activity \<Rightarrow> log_data \<Rightarrow> log_data" where
  "edit_defaults logged_activity result0 =
     (let result1 =
            (if \<not> truthy_str (ld_activity_type_id result0) then
               result0\<lparr>ld_activity_type_id := Some (la_activity_type_id logged_activity)\<rparr>
             else result0)
      in if ld_date result1 = None then
           result1\<lparr>ld_date := Some (la_activity_date logged_activity)\<rparr>
         else result1)"

text \<open>\<open>LoggedActivityAPI.put\<close>: edit an activity.\<close>

definition LoggedActivityAPI_put ::
  "database \<Rightarrow> int \<Rightarrow> string \<times> user \<Rightarrow> string option \<Rightarrow> log_data option \<Rightarrow>
   response outcome \<times> database" where
  "LoggedActivityAPI_put db today current_user logged_activity_id payload =
     (case payload of
        None \<Rightarrow> (Return (Response ''Data for creation must be provided.'' 400), db)
      | Some result0 \<Rightarrow>
         (case validate_logged_activity db result0 of
            Some errors \<Rightarrow> (Return (Response errors 400), db)
          | None \<Rightarrow>
             (case own_logged_activity db logged_activity_id current_user of
                None \<Rightarrow> (Return (Response ''Logged activity does not exist'' 404), db)
              | Some logged_activity \<Rightarrow>
                 if la_status (snd logged_activity) \<noteq> ''in review'' then
                   (Return (Response ''Not allowed. Activity is already in pre-approval.'' 401),
                    db)
                 else
                   (let result = edit_defaults (snd logged_activity) result0
                    in case parse_log_activity_fields db today result of
                         Raise e \<Rightarrow> (Raise e, db)
                       | Return (Inl parsed_result) \<Rightarrow> (Return parsed_result, db)
                       | Return (Inr parsed_result) \<Rightarrow>
                          (Return (Response ''Activity edited successfully'' 200),
                           db\<lparr>logged_activities := (logged_activities db)(fst logged_activity \<mapsto>
                             (snd logged_activity)
                               \<lparr>la_name := ld_name result,
                                la_description := ld_description result,
                                la_activity_id := map_option fst (pr_activity parsed_result),
                                la_photo := ld_photo result,
                                la_value := pr_activity_value parsed_result,
                                la_activity_type_id := fst (pr_activity_type parsed_result),
                                la_activity_date := pr_activity_date parsed_result\<rparr>)\<rparr>)))))"

text \<open>\<open>LoggedActivityAPI.delete\<close>.\<close>

definition LoggedActivityAPI_delete ::
  "database \<Rightarrow> string \<times> user \<Rightarrow> string option \<Rightarrow> response outcome \<times> database" where
  "LoggedActivityAPI_delete db current_user logged_activity_id =
     (case own_logged_activity db logged_activity_id current_user of
        None \<Rightarrow> (Return (Response ''Logged Activity does not exist!'' 404), db)
      | Some logged_activity \<Rightarrow>
         if la_status (snd logged_activity) \<noteq> ''in review'' then
           (Return (Response ''You are not allowed to perform this operation'' 403), db)
         else
           (Return (Response [] 204),
            db\<lparr>logged_activities := (logged_activities db)(fst logged_activity := None)\<rparr>))"

subsection \<open>Secretary review\<close>

text \<open>
  \<open>'status' not in payload\<close>: key membership for a dict, element membership for a list,
  substring test for a string; \<open>None\<close>, a number and a boolean are not iterable and raise
  \<open>TypeError\<close>.
\<close>

fun status_in :: "json \<Rightarrow> exn + bool" where
  "status_in (JObj kvs) = Inr (map_of kvs ''status'' \<noteq> None)"
| "status_in (JArr xs) = Inr (JStr ''status'' \<in> set xs)"
| "status_in (JStr s) = Inr (sublist ''status'' s)"
| "status_in _ = Inl TypeError"

text \<open>\<open>SecretaryReviewLoggedActivityAPI.put\<close>.\<close>

definition SecretaryReviewLoggedActivityAPI_put ::
  "database \<Rightarrow> string \<Rightarrow> json \<Rightarrow> response outcome \<times> database" where
  "SecretaryReviewLoggedActivityAPI_put db logged_activity_id payload =
     (case status_in payload of
        Inl e \<Rightarrow> (Raise e, db)
      | Inr False \<Rightarrow> (Return (Response ''status is required.'' 400), db)
      | Inr True \<Rightarrow>
         (case logged_activities db logged_activity_id of
            None \<Rightarrow> (Return (Response ''Logged activity not found'' 404), db)
          | Some logged_activity \<Rightarrow>
             (case payload_get payload ''status'' of
                Inl e \<Rightarrow> (Raise e, db)
              | Inr (JStr status) \<Rightarrow>
                 if \<not> (status \<in> set [''pending'', ''rejected'']) then
                   (Return (Response ''Invalid status value.'' 400), db)
                 else
                   (Return (Response ''successfully changed status'' 200),
                    db\<lparr>logged_activities := (logged_activities db)(logged_activity_id \<mapsto>
                         logged_activity\<lparr>la_status := status\<rparr>)\<rparr>)
              | Inr _ \<Rightarrow> (Return (Response ''Invalid status value.'' 400), db))))"

subsection \<open>Approval\<close>

text \<open>\<open>len(x)\<close>: a number and a boolean have no length.\<close>

fun py_len :: "json \<Rightarrow> exn + nat" where
  "py_len (JStr s) = Inr (length s)"
| "py_len (JArr xs) = Inr (length xs)"
| "py_len (JObj kvs) = Inr (length kvs)"
| "py_len _ = Inl TypeError"

text \<open>
  \<open>LoggedActivity.query.get(logged_activities_id)\<close> for an element of the list. A string
  is the primary key; so is the string of a one-element list, and the \<open>uuid\<close> of a dict.
  What \<open>Query.get\<close> makes of any other value, no row or an exception, is SQLAlchemy's and
  the database's and not the repository's: it is the parameter \<open>ident\<close>, which gives the
  key looked up or the exception raised.
\<close>

fun Query_get_key :: "(json \<Rightarrow> exn + string option) \<Rightarrow> json \<Rightarrow> exn + string option" where
  "Query_get_key ident (JStr i) = Inr (Some i)"
| "Query_get_key ident (JArr [JStr i]) = Inr (Some i)"
| "Query_get_key ident (JObj [(k, JStr i)]) =
     (if k = ''uuid'' then Inr (Some i) else ident (JObj [(k, JStr i)]))"
| "Query_get_key ident v = ident v"

definition LoggedActivity_query_get ::
  "(json \<Rightarrow> exn + string option) \<Rightarrow> database \<Rightarrow> json \<Rightarrow>
   exn + (string \<times> logged_activity) option" where
  "LoggedActivity_query_get ident db v =
     (case Query_get_key ident v of
        Inl e \<Rightarrow> Inl e
      | Inr k \<Rightarrow> Inr (query_get (logged_activities db) k))"

text \<open>
  The first loop: the set \<open>unique_activities_ids\<close> of the entities to approve, as the list
  of their uuids without repetition.
\<close>

fun unique_activities_ids ::
  "(json \<Rightarrow> exn + string option) \<Rightarrow> database \<Rightarrow> json list \<Rightarrow> string list \<Rightarrow>
   exn + string list" where
  "unique_activities_ids ident db [] unique = Inr unique"
| "unique_activities_ids ident db (logged_activities_id # rest) unique =
     (case LoggedActivity_query_get ident db logged_activities_id of
        Inl e \<Rightarrow> Inl e
      | Inr None \<Rightarrow> unique_activities_ids ident db rest unique
      | Inr (Some logged_activity) \<Rightarrow>
         if la_redeemed (snd logged_activity) \<or>
            la_status (snd logged_activity) \<in> set [''rejected'', ''in review'', ''approved'']
         then unique_activities_ids ident db rest unique
         else unique_activities_ids ident db rest (List.insert (fst logged_activity) unique))"

text \<open>
  The second loop, over \<open>list(unique_activities_ids)\<close>: the status becomes \<open>approved\<close> and
  the society's \<open>total_points\<close> setter is called with the item. A society that does not
  resolve is \<open>None\<close>, and assigning to its attribute raises.
\<close>

fun approve_each :: "database \<Rightarrow> string list \<Rightarrow> exn option \<times> database" where
  "approve_each db [] = (None, db)"
| "approve_each db (i # rest) =
     (case logged_activities db i of
        None \<Rightarrow> approve_each db rest
      | Some unique_activities_id \<Rightarrow>
         (let approved = unique_activities_id\<lparr>la_status := ''approved''\<rparr>;
              db1 = db\<lparr>logged_activities := (logged_activities db)(i \<mapsto> approved)\<rparr>
          in case societies db1 (la_society_id approved) of
               None \<Rightarrow> (Some AttributeError, db1)
             | Some soc \<Rightarrow>
                approve_each
                  (db1\<lparr>societies := (societies db1)(la_society_id approved \<mapsto>
                        set_total_points soc approved)\<rparr>)
                  rest))"

text \<open>\<open>LoggedActivityApprovalAPI.put\<close>.\<close>

definition LoggedActivityApprovalAPI_put ::
  "(json \<Rightarrow> exn + string option) \<Rightarrow> database \<Rightarrow> json \<Rightarrow> response outcome \<times> database" where
  "LoggedActivityApprovalAPI_put ident db payload =
     (if truthy payload then
        (case payload_get payload ''loggedActivitiesIds'' of
           Inl e \<Rightarrow> (Raise e, db)
         | Inr logged_activities_ids \<Rightarrow>
            if logged_activities_ids = JNull then
              (Return (Response ''loggedActivitiesIds is required'' 400), db)
            else
              (case py_len logged_activities_ids of
                 Inl e \<Rightarrow> (Raise e, db)
               | Inr n \<Rightarrow>
                  if n > 20 then
                    (Return (Response
                       ''Sorry, you can not approve more than 20 logged_activities at a go'' 403),
                     db)
                  else
                    (case logged_activities_ids of
                       JArr ids \<Rightarrow>
                        if ids = [] then
                          (Return (Response
                             ''A List/Array with at least one logged activity id is needed!'' 400),
                           db)
                        else
                          (case unique_activities_ids ident db ids [] of
                             Inl e \<Rightarrow> (Raise e, db)
                           | Inr unique \<Rightarrow>
                              if unique = [] then
                                (Return (Response
                                   ''Invalid logged activities or no pending logged activities in request''
                                   400), db)
                              else
                                (case approve_each db unique of
                                   (Some e, db') \<Rightarrow> (Raise e, db')
                                 | (None, db') \<Rightarrow>
                                    (Return (Response ''Activity edited successfully'' 200), db')))
                     | _ \<Rightarrow>
                        (Return (Response
                           ''A List/Array with at least one logged activity id is needed!'' 400),
                         db))))
      else (Return (Response ''Data for creation must be provided.'' 400), db))"

subsection \<open>Rejection\<close>

text \<open>\<open>LoggedActivityRejectionAPI.put\<close>.\<close>

definition LoggedActivityRejectionAPI_put ::
  "database \<Rightarrow> string option \<Rightarrow> response outcome \<times> database" where
  "LoggedActivityRejectionAPI_put db logged_activity_id =
     (case logged_activity_id of
        None \<Rightarrow> (Return (Response ''loggedActivitiesIds is required'' 400), db)
      | Some i \<Rightarrow>
         (case logged_activities db i of
            None \<Rightarrow> (Return (Response ''Logged activity not found'' 404), db)
          | Some logged_activity \<Rightarrow>
             if la_status logged_activity = ''pending'' then
               (Return (Response ''Activity successfully rejected'' 200),
                db\<lparr>logged_activities := (logged_activities db)(i \<mapsto>
                     logged_activity\<lparr>la_status := ''rejected''\<rparr>)\<rparr>)
             else
               (Return (Response
                  ''This logged activity is either in-review, approved or already rejected'' 403),
                db)))"

subsection \<open>Request for more information\<close>

text \<open>
  \<open>LoggedActivityInfoAPI.put\<close>. The subject of the email reads
  \<open>logged_activity.user.society.name\<close>, which raises when the user or the user's society
  is \<open>None\<close>. The email itself, queued with \<open>send_email.delay\<close>, is outside the database
  and is not modelled.
\<close>

definition LoggedActivityInfoAPI_put ::
  "database \<Rightarrow> string option \<Rightarrow> json \<Rightarrow> response outcome \<times> database" where
  "LoggedActivityInfoAPI_put db logged_activity_id payload =
     (if \<not> truthy payload then
        (Return (Response ''Data for editing must be provided'' 400), db)
      else if \<not> truthy_str logged_activity_id then
        (Return (Response ''LoggedActivity id must be provided.'' 400), db)
      else case logged_activities db (the logged_activity_id) of
        None \<Rightarrow> (Return (Response ''Logged activity not found'' 404), db)
      | Some logged_activity \<Rightarrow>
         (case payload_get payload ''comment'' of
            Inl e \<Rightarrow> (Raise e, db)
          | Inr comment \<Rightarrow>
             if truthy comment then
               (case users db (la_user_id logged_activity) of
                  None \<Rightarrow> (Raise AttributeError, db)
                | Some usr \<Rightarrow>
                   (case query_get (societies db) (user_society_id usr) of
                      None \<Rightarrow> (Raise AttributeError, db)
                    | Some society \<Rightarrow>
                       (Return (Response
                          ''Extra information has been successfully requested'' 200), db)))
             else
               (Return (Response ''Context for extra informaton must be provided.'' 400), db)))"

section \<open>The operations together\<close>

text \<open>
  A request to one of the handlers above that change something, as the routes of app.py
  dispatch it, with the arguments the handler reads: the key of a new row, the current
  user, the identifier of the URL, the payload. The \<open>get\<close> handlers, which assign
  nothing, are not among them.
\<close>

datatype request =
    LogActivity string "string \<times> user" "log_data option"
  | EditLoggedActivity "string \<times> user" "string option" "log_data option"
  | DeleteLoggedActivity "string \<times> user" "string option"
  | SecretaryReview string json
  | ApproveLoggedActivities json
  | RejectLoggedActivity "string option"
  | RequestMoreInfo "string option" json
  | RedeemPoints string "string \<times> user" json
  | EditRedemption "string option" json
  | DeleteRedemption "string option"
  | VerifyRedemption "string option" json

fun handle ::
  "(json \<Rightarrow> exn + string option) \<Rightarrow> database \<Rightarrow> int \<Rightarrow> request \<Rightarrow>
   response outcome \<times> database" where
  "handle ident db today (LogActivity new_uuid current_user payload) =
     LoggedActivitiesAPI_post db today new_uuid current_user payload"
| "handle ident db today (EditLoggedActivity current_user logged_activity_id payload) =
     LoggedActivityAPI_put db today current_user logged_activity_id payload"
| "handle ident db today (DeleteLoggedActivity current_user logged_activity_id) =
     LoggedActivityAPI_delete db current_user logged_activity_id"
| "handle ident db today (SecretaryReview logged_activity_id payload) =
     SecretaryReviewLoggedActivityAPI_put db logged_activity_id payload"
| "handle ident db today (ApproveLoggedActivities payload) =
     LoggedActivityApprovalAPI_put ident db payload"
| "handle ident db today (RejectLoggedActivity logged_activity_id) =
     LoggedActivityRejectionAPI_put db logged_activity_id"
| "handle ident db today (RequestMoreInfo logged_activity_id payload) =
     LoggedActivityInfoAPI_put db logged_activity_id payload"
| "handle ident db today (RedeemPoints new_uuid current_user payload) =
     PointRedemptionAPI_post db new_uuid current_user payload"
| "handle ident db today (EditRedemption redeem_id payload) =
     PointRedemptionAPI_put db redeem_id payload"
| "handle ident db today (DeleteRedemption redeem_id) =
     PointRedemptionAPI_delete db redeem_id"
| "handle ident db today (VerifyRedemption redeem_id payload) =
     PointRedemptionRequestNumeration_put db redeem_id payload"

section \<open>Notation for the statements\<close>

text \<open>
  The items the first loop of the approval handler keeps, and what the approval of item
  \<open>i\<close> adds to the total points of society \<open>s\<close>.
\<close>

abbreviation pending_item :: "logged_activity \<Rightarrow> bool" where
  "pending_item la \<equiv>
     \<not> la_redeemed la \<and> la_status la \<notin> set [''rejected'', ''in review'', ''approved'']"

abbreviation credit_to :: "database \<Rightarrow> string \<Rightarrow> string \<Rightarrow> int" where
  "credit_to db s i \<equiv>
     (case logged_activities db i of
        None \<Rightarrow> 0
      | Some la \<Rightarrow> if la_society_id la = s then la_value la else 0)"

text \<open>
  The logged activities an operation turns to approved; the integer a value adds to the
  used points; and what a request adds to the used points of society \<open>s\<close>: the value of
  the redemption request, when the request is its approval, the response is the handler's
  200 and \<open>s\<close> is the society of the user who made the redemption request.
\<close>

abbreviation newly_approved :: "database \<Rightarrow> database \<Rightarrow> string set" where
  "newly_approved db db' \<equiv>
     {i. \<exists>la. logged_activities db i = Some la \<and> la_status la \<noteq> ''approved'' \<and>
              map_option la_status (logged_activities db' i) = Some ''approved''}"

abbreviation amount :: "json \<Rightarrow> int" where
  "amount v \<equiv> (case v of JNum n \<Rightarrow> n | JBool b \<Rightarrow> (if b then 1 else 0) | _ \<Rightarrow> 0)"

abbreviation redeemed :: "database \<Rightarrow> string \<Rightarrow> request \<Rightarrow> response outcome \<Rightarrow> int" where
  "redeemed db s req res \<equiv>
     (case req of
        VerifyRedemption redeem_id payload \<Rightarrow>
          (case query_get (redemptions db) redeem_id of
             None \<Rightarrow> 0
           | Some r \<Rightarrow>
              if res = Return (Formatted ''RedemptionRequest status changed to {}''
                                 (JStr ''approved'') 200) \<and>
                 map_option user_society_id (users db (rr_user_id (snd r))) = Some (Some s)
              then amount (rr_value (snd r)) else 0)
      | _ \<Rightarrow> 0)"

section \<open>Example data\<close>

text \<open>
  A society with 100 points earned and 30 used, a member \<open>u1\<close> and a user \<open>u2\<close> without
  a society, an activity type worth 100 points and one for several participants worth 10
  each, an activity on day 970, and a pending redemption request of 40 points.
\<close>

definition example_db :: database where
  "example_db =
     \<lparr>societies = [''s1'' \<mapsto> \<lparr>db_total_points = 100, db_used_points = 30\<rparr>],
      users = [''u1'' \<mapsto> \<lparr>user_society_id = Some ''s1''\<rparr>,
               ''u2'' \<mapsto> \<lparr>user_society_id = None\<rparr>],
      activity_types =
        [''t1'' \<mapsto> \<lparr>at_name = ''Hackathon'', at_value = 100,
                     supports_multiple_participants = False\<rparr>,
         ''t2'' \<mapsto> \<lparr>at_name = ''Bootcamp Interviews'', at_value = 10,
                     supports_multiple_participants = True\<rparr>],
      activities = [''a1'' \<mapsto> \<lparr>act_activity_type_id = ''t1'', act_activity_date = 970\<rparr>],
      logged_activities = Map.empty,
      redemptions =
        [''r1'' \<mapsto> \<lparr>rr_name = JStr ''T-shirts'', rr_description = JNull,
                     rr_user_id = ''u1'', rr_society_id = Some ''s1'',
                     rr_country = Some ''c1'', rr_value = JNum 40,
                     rr_status = JStr ''pending''\<rparr>],
      countries = [(''c1'', ''Kenya'')]\<rparr>"

definition u1 :: "string \<times> user" where
  "u1 = (''u1'', \<lparr>user_society_id = Some ''s1''\<rparr>)"

definition approve_r1 :: "database \<Rightarrow> response outcome \<times> database" where
  "approve_r1 db =
     PointRedemptionRequestNumeration_put db (Some ''r1'') (JObj [(''status'', JStr ''approved'')])"

definition reject_r1 :: "database \<Rightarrow> response outcome \<times> database" where
  "reject_r1 db =
     PointRedemptionRequestNumeration_put db (Some ''r1'') (JObj [(''status'', JStr ''rejected'')])"

text \<open>Submissions: against the activity \<open>a1\<close>, against a type with a date, both, neither.\<close>

definition log_activity :: "string \<Rightarrow> log_data" where
  "log_activity aid =
     \<lparr>ld_name = Some ''Demo day'', ld_photo = None, ld_description = None,
      ld_activity_id = Some aid, ld_activity_type_id = None,
      ld_date = None, ld_no_of_participants = None\<rparr>"

definition log_type :: "string \<Rightarrow> int \<Rightarrow> int option \<Rightarrow> log_data" where
  "log_type tid d n =
     \<lparr>ld_name = Some ''Interviews'', ld_photo = None, ld_description = Some ''Ada, Grace, Alan'',
      ld_activity_id = None, ld_activity_type_id = Some tid,
      ld_date = Some d, ld_no_of_participants = n\<rparr>"

definition both_ids :: log_data where
  "both_ids = (log_type ''t1'' 990 None)\<lparr>ld_activity_id := Some ''a1''\<rparr>"

definition no_ids :: log_data where
  "no_ids = (log_type ''t1'' 990 None)\<lparr>ld_activity_type_id := None\<rparr>"

text \<open>
  Logged activities of \<open>u1\<close> in society \<open>s1\<close>: \<open>l1\<close> pending and worth 50, \<open>l2\<close> approved,
  \<open>l3\<close> in review, \<open>l4\<close> rejected.
\<close>

definition logged :: "int \<Rightarrow> string \<Rightarrow> logged_activity" where
  "logged v st =
     \<lparr>la_name = Some ''Demo day'', la_description = None, la_photo = None,
      la_value = v, la_status = st, la_activity_date = 990, la_redeemed = False,
      la_no_of_participants = None, la_activity_type_id = ''t1'', la_user_id = ''u1'',
      la_society_id = ''s1'', la_activity_id = None\<rparr>"

definition review_db :: database where
  "review_db =
     example_db\<lparr>logged_activities :=
       [''l1'' \<mapsto> logged 50 ''pending'', ''l2'' \<mapsto> logged 20 ''approved'',
        ''l3'' \<mapsto> logged 100 ''in review'', ''l4'' \<mapsto> logged 5 ''rejected'']\<rparr>"

definition u2 :: "string \<times> user" where
  "u2 = (''u2'', \<lparr>user_society_id = None\<rparr>)"

definition status_payload :: "string \<Rightarrow> json" where
  "status_payload st = JObj [(''status'', JStr st)]"

definition ids_payload :: "string list \<Rightarrow> json" where
  "ids_payload ids = JObj [(''loggedActivitiesIds'', JArr (map JStr ids))]"

text \<open>A \<open>Query.get\<close> that finds no row for an identifier that names no key.\<close>

definition no_row :: "json \<Rightarrow> exn + string option" where
  "no_row v = Inr None"

text \<open>
  A submission of interviews with -3 participants, its review by the secretary and its
  approval.
\<close>

definition negative_logged :: database where
  "negative_logged =
     snd (LoggedActivitiesAPI_post example_db 1000 ''l9'' u1
            (Some (log_type ''t2'' 990 (Some (- 3)))))"

definition negative_reviewed :: database where
  "negative_reviewed =
     snd (SecretaryReviewLoggedActivityAPI_put negative_logged ''l9'' (status_payload ''pending''))"

definition negative_approved :: database where
  "negative_approved =
     snd (LoggedActivityApprovalAPI_put no_row negative_reviewed (ids_payload [''l9'']))"

text \<open>A batch with a repeated, an approved, a rejected and an unknown identifier.\<close>

definition batch :: "string list" where
  "batch = [''l1'', ''l2'', ''l1'', ''l4'', ''l0'']"

text \<open>
  The approval of \<open>l1\<close>, its review by the secretary, who sets it to pending, and its
  approval again.
\<close>

definition approved_once :: database where
  "approved_once = snd (LoggedActivityApprovalAPI_put no_row review_db (ids_payload [''l1'']))"

definition reviewed_again :: database where
  "reviewed_again =
     snd (SecretaryReviewLoggedActivityAPI_put approved_once ''l1'' (status_payload ''pending''))"

definition approved_twice :: database where
  "approved_twice =
     snd (LoggedActivityApprovalAPI_put no_row reviewed_again (ids_payload [''l1'']))"

section \<open>Properties\<close>

subsection \<open>Validation and valuation\<close>

lemma post_validation_error:
  "validate_logged_activity db r = Some e \<Longrightarrow>
   LoggedActivitiesAPI_post db today new_uuid current_user (Some r) = (Return (Response e 400), db)"
  by (simp add: LoggedActivitiesAPI_post_def)

lemma post_parse_error:
  "validate_logged_activity db r = None \<Longrightarrow>
   parse_log_activity_fields db today r = Return (Inl resp) \<Longrightarrow>
   LoggedActivitiesAPI_post db today new_uuid current_user (Some r) =
     (if query_get (societies db) (user_society_id (snd current_user)) = None
      then (Return (Response ''You are not a member of any society yet'' 422), db)
      else (Return resp, db))"
  by (simp add: LoggedActivitiesAPI_post_def split: option.splits)

lemma validate_multi_missing:
  assumes "supports_multiple_participants t"
    and "\<not> (truthy_str (ld_description r) \<and> truthy_int (ld_no_of_participants r))"
    and "\<not> truthy_str (ld_activity_id r)"
    and "ld_activity_type_id r = Some tid" and "activity_types db tid = Some t"
  shows "validate_logged_activity db r \<noteq> None"
  using assms
  by (auto simp add: validate_logged_activity_def multi_participant_activities_def)

lemma parse_multi_missing:
  assumes "supports_multiple_participants t"
    and "\<not> (truthy_str (ld_description r) \<and> truthy_int (ld_no_of_participants r))"
    and "truthy_str (ld_activity_id r)"
    and "activities db (the (ld_activity_id r)) = Some a"
    and "activity_types db (act_activity_type_id a) = Some t"
  shows "parse_log_activity_fields db today r =
           Return (Inl (Response
             ''Please send the number of interviewees and their names in the description'' 400))"
  using assms
  by (auto simp add: parse_log_activity_fields_def query_get_def truthy_str_def split: option.splits)

lemma parsed_value:
  assumes "parse_log_activity_fields db today r = Return (Inr p)"
  shows "activity_types db (fst (pr_activity_type p)) = Some (snd (pr_activity_type p)) \<and>
         (if supports_multiple_participants (snd (pr_activity_type p)) then
            (\<exists>n. ld_no_of_participants r = Some n \<and>
                 pr_activity_value p = at_value (snd (pr_activity_type p)) * n)
          else pr_activity_value p = at_value (snd (pr_activity_type p)))"
  using assms
  by (auto simp add: parse_log_activity_fields_def parse_log_activity_fields_end_def query_get_def
        split: option.splits if_splits)

lemma parsed_branch:
  assumes "parse_log_activity_fields db today r = Return (Inr p)"
  shows "if truthy_str (ld_activity_id r) then
           (\<exists>a. activities db (the (ld_activity_id r)) = Some a \<and>
                activity_types db (act_activity_type_id a) = Some (snd (pr_activity_type p)))
         else ld_activity_type_id r = Some (fst (pr_activity_type p))"
  using assms
  by (auto simp add: parse_log_activity_fields_def parse_log_activity_fields_end_def query_get_def
        split: option.splits if_splits)

lemma parse_future_date:
  "\<not> truthy_str (ld_activity_id r) \<Longrightarrow> ld_date r = Some d \<Longrightarrow> d > today \<Longrightarrow>
   parse_log_activity_fields db today r = Return (Inl (Response ''Invalid activity date'' 422))"
  by (simp add: parse_log_activity_fields_def)

lemma parse_type_branch:
  "\<not> truthy_str (ld_activity_id r) \<Longrightarrow> ld_date r = Some d \<Longrightarrow> d \<le> today \<Longrightarrow>
   ld_activity_type_id r = Some tid \<Longrightarrow> activity_types db tid = Some t \<Longrightarrow>
   parse_log_activity_fields db today r = parse_log_activity_fields_end today r None (tid, t) d"
  by (simp add: parse_log_activity_fields_def query_get_def)

lemma parse_activity_branch:
  "truthy_str (ld_activity_id r) \<Longrightarrow> activities db (the (ld_activity_id r)) = Some a \<Longrightarrow>
   activity_types db (act_activity_type_id a) = Some t \<Longrightarrow>
   supports_multiple_participants t \<longrightarrow>
     truthy_int (ld_no_of_participants r) \<and> truthy_str (ld_description r) \<Longrightarrow>
   parse_log_activity_fields db today r =
     parse_log_activity_fields_end today r (Some (the (ld_activity_id r), a))
       (act_activity_type_id a, t) (act_activity_date a)"
  by (auto simp add: parse_log_activity_fields_def query_get_def truthy_str_def
        split: option.splits)

lemma parse_end_fresh:
  "today - d \<le> 30 \<Longrightarrow>
   supports_multiple_participants (snd t) \<longrightarrow> ld_no_of_participants r \<noteq> None \<Longrightarrow>
   \<exists>p. parse_log_activity_fields_end today r a t d = Return (Inr p) \<and> pr_activity_date p = d"
  by (auto simp add: parse_log_activity_fields_end_def)

lemma parse_end_stale:
  "today - d \<ge> 31 \<Longrightarrow>
   parse_log_activity_fields_end today r a t d =
     Return (Inl (Response ''You're late. That activity happened more than 30 days ago'' 422))"
  by (simp add: parse_log_activity_fields_end_def)

lemmas example_eval =
  example_db_def u1_def u2_def log_activity_def log_type_def both_ids_def no_ids_def
  logged_def review_db_def status_payload_def ids_payload_def batch_def no_row_def
  truthy_str_def truthy_int_def query_get_def

text \<open>
  C6. Staleness of a submission. With an activity type and a date, a date after today is
  answered with "Invalid activity date" (422) before the type is resolved or the age is
  looked at. Once the date and the type are resolved, by either branch, an activity at
  most 30 days old is parsed with that date, and one 31 or more days old is answered with
  the "You're late" response (422).
\<close>

theorem staleness_and_future_date:
  "(\<not> truthy_str (ld_activity_id r) \<and> ld_date r = Some d \<and> d > today \<longrightarrow>
      parse_log_activity_fields db today r = Return (Inl (Response ''Invalid activity date'' 422)))
   \<and>
   (\<not> truthy_str (ld_activity_id r) \<and> ld_date r = Some d \<and> d \<le> today \<and>
    ld_activity_type_id r = Some tid \<and> activity_types db tid = Some t \<and>
    (supports_multiple_participants t \<longrightarrow> ld_no_of_participants r \<noteq> None) \<longrightarrow>
      (today - d \<le> 30 \<longrightarrow>
         (\<exists>p. parse_log_activity_fields db today r = Return (Inr p) \<and> pr_activity_date p = d)) \<and>
      (today - d \<ge> 31 \<longrightarrow>
         parse_log_activity_fields db today r =
           Return (Inl (Response ''You're late. That activity happened more than 30 days ago'' 422))))
   \<and>
   (truthy_str (ld_activity_id r) \<and> activities db (the (ld_activity_id r)) = Some a \<and>
    activity_types db (act_activity_type_id a) = Some t \<and>
    (supports_multiple_participants t \<longrightarrow>
       truthy_int (ld_no_of_participants r) \<and> truthy_str (ld_description r)) \<longrightarrow>
      (today - act_activity_date a \<le> 30 \<longrightarrow>
         (\<exists>p. parse_log_activity_fields db today r = Return (Inr p) \<and>
              pr_activity_date p = act_activity_date a)) \<and>
      (today - act_activity_date a \<ge> 31 \<longrightarrow>
         parse_log_activity_fields db today r =
           Return (Inl (Response ''You're late. That activity happened more than 30 days ago'' 422))))"
proof (intro conjI impI)
  assume "\<not> truthy_str (ld_activity_id r) \<and> ld_date r = Some d \<and> d > today"
  then show "parse_log_activity_fields db today r =
               Return (Inl (Response ''Invalid activity date'' 422))"
    by (simp add: parse_future_date)
next
  assume h: "\<not> truthy_str (ld_activity_id r) \<and> ld_date r = Some d \<and> d \<le> today \<and>
    ld_activity_type_id r = Some tid \<and> activity_types db tid = Some t \<and>
    (supports_multiple_participants t \<longrightarrow> ld_no_of_participants r \<noteq> None)"
  then have eq: "parse_log_activity_fields db today r =
                   parse_log_activity_fields_end today r None (tid, t) d"
    by (simp add: parse_type_branch)
  { assume "today - d \<le> 30"
    then show "\<exists>p. parse_log_activity_fields db today r = Return (Inr p) \<and>
                   pr_activity_date p = d"
      using h parse_end_fresh [of today d "(tid, t)" r None] by (simp add: eq) }
  { assume "31 \<le> today - d"
    then show "parse_log_activity_fields db today r =
        Return (Inl (Response ''You're late. That activity happened more than 30 days ago'' 422))"
      by (simp add: eq parse_end_stale) }
next
  assume h: "truthy_str (ld_activity_id r) \<and> activities db (the (ld_activity_id r)) = Some a \<and>
    activity_types db (act_activity_type_id a) = Some t \<and>
    (supports_multiple_participants t \<longrightarrow>
       truthy_int (ld_no_of_participants r) \<and> truthy_str (ld_description r))"
  then have eq: "parse_log_activity_fields db today r =
       parse_log_activity_fields_end today r (Some (the (ld_activity_id r), a))
         (act_activity_type_id a, t) (act_activity_date a)"
    by (simp add: parse_activity_branch)
  have n: "supports_multiple_participants t \<longrightarrow> ld_no_of_participants r \<noteq> None"
    using h by (auto simp add: truthy_int_def split: option.splits)
  { assume "today - act_activity_date a \<le> 30"
    then show "\<exists>p. parse_log_activity_fields db today r = Return (Inr p) \<and>
                   pr_activity_date p = act_activity_date a"
      using n parse_end_fresh [of today "act_activity_date a" "(act_activity_type_id a, t)" r]
      by (simp add: eq) }
  { assume "31 \<le> today - act_activity_date a"
    then show "parse_log_activity_fields db today r =
        Return (Inl (Response ''You're late. That activity happened more than 30 days ago'' 422))"
      by (simp add: eq parse_end_stale) }
qed

theorem staleness_and_future_date_witness:
  "parse_log_activity_fields example_db 1000 (log_type ''t1'' 1001 None) =
     Return (Inl (Response ''Invalid activity date'' 422)) \<and>
   (\<exists>p. parse_log_activity_fields example_db 1000 (log_type ''t1'' 970 None) = Return (Inr p) \<and>
        pr_activity_date p = 970) \<and>
   parse_log_activity_fields example_db 1000 (log_type ''t1'' 969 None) =
     Return (Inl (Response ''You're late. That activity happened more than 30 days ago'' 422)) \<and>
   (\<exists>p. parse_log_activity_fields example_db 1000 (log_activity ''a1'') = Return (Inr p) \<and>
        pr_activity_date p = 970) \<and>
   parse_log_activity_fields example_db 1001 (log_activity ''a1'') =
     Return (Inl (Response ''You're late. That activity happened more than 30 days ago'' 422))"
  using
    staleness_and_future_date [where r = "log_type ''t1'' 1001 None" and d = 1001
      and today = 1000 and db = example_db]
    staleness_and_future_date [where r = "log_type ''t1'' 970 None" and d = 970
      and today = 1000 and db = example_db and tid = "''t1''"
      and t = "\<lparr>at_name = ''Hackathon'', at_value = 100,
                supports_multiple_participants = False\<rparr>"]
    staleness_and_future_date [where r = "log_type ''t1'' 969 None" and d = 969
      and today = 1000 and db = example_db and tid = "''t1''"
      and t = "\<lparr>at_name = ''Hackathon'', at_value = 100,
                supports_multiple_participants = False\<rparr>"]
    staleness_and_future_date [where r = "log_activity ''a1''" and today = 1000
      and db = example_db
      and a = "\<lparr>act_activity_type_id = ''t1'', act_activity_date = 970\<rparr>"
      and t = "\<lparr>at_name = ''Hackathon'', at_value = 100,
                supports_multiple_participants = False\<rparr>"]
    staleness_and_future_date [where r = "log_activity ''a1''" and today = 1001
      and db = example_db
      and a = "\<lparr>act_activity_type_id = ''t1'', act_activity_date = 970\<rparr>"
      and t = "\<lparr>at_name = ''Hackathon'', at_value = 100,
                supports_multiple_participants = False\<rparr>"]
  by (simp add: example_eval)

text \<open>
  C7. Valuation with several participants. A submission that passes the schema and is
  parsed has a type that is in the table; when that type supports multiple participants
  the submission carries a description and a number of participants \<open>n\<close>, and its value is
  the type's value times \<open>n\<close>; otherwise its value is the type's value. A submission
  against such a type that lacks the description or the number of participants is
  answered with a failure (400, or 422 when the user has no society) and stores nothing.
\<close>

theorem multi_participant_valuation:
  "(validate_logged_activity db r = None \<and>
    parse_log_activity_fields db today r = Return (Inr p) \<longrightarrow>
      activity_types db (fst (pr_activity_type p)) = Some (snd (pr_activity_type p)) \<and>
      (if supports_multiple_participants (snd (pr_activity_type p)) then
         truthy_str (ld_description r) \<and>
         (\<exists>n. ld_no_of_participants r = Some n \<and> n \<noteq> 0 \<and>
              pr_activity_value p = at_value (snd (pr_activity_type p)) * n)
       else pr_activity_value p = at_value (snd (pr_activity_type p))))
   \<and>
   (supports_multiple_participants t \<and>
    \<not> (truthy_str (ld_description r) \<and> truthy_int (ld_no_of_participants r)) \<and>
    (if truthy_str (ld_activity_id r) then
       \<exists>a. activities db (the (ld_activity_id r)) = Some a \<and>
           activity_types db (act_activity_type_id a) = Some t
     else \<exists>tid. ld_activity_type_id r = Some tid \<and> activity_types db tid = Some t) \<longrightarrow>
      (\<exists>m c. LoggedActivitiesAPI_post db today new_uuid current_user (Some r) =
               (Return (Response m c), db) \<and> (c = 400 \<or> c = 422)))"
proof (intro conjI impI)
  assume ok: "validate_logged_activity db r = None \<and>
              parse_log_activity_fields db today r = Return (Inr p)"
  then show "activity_types db (fst (pr_activity_type p)) = Some (snd (pr_activity_type p))"
    using parsed_value by blast
  show "if supports_multiple_participants (snd (pr_activity_type p)) then
          truthy_str (ld_description r) \<and>
          (\<exists>n. ld_no_of_participants r = Some n \<and> n \<noteq> 0 \<and>
               pr_activity_value p = at_value (snd (pr_activity_type p)) * n)
        else pr_activity_value p = at_value (snd (pr_activity_type p))"
  proof (cases "supports_multiple_participants (snd (pr_activity_type p))")
    case False
    with ok parsed_value [of db today r p] show ?thesis by simp
  next
    case True
    let ?t = "snd (pr_activity_type p)"
    have ty: "activity_types db (fst (pr_activity_type p)) = Some ?t"
      using ok parsed_value by blast
    have both: "truthy_str (ld_description r) \<and> truthy_int (ld_no_of_participants r)"
    proof (rule ccontr)
      assume miss: "\<not> (truthy_str (ld_description r) \<and> truthy_int (ld_no_of_participants r))"
      show False
      proof (cases "truthy_str (ld_activity_id r)")
        case True
        then obtain a where "activities db (the (ld_activity_id r)) = Some a"
          and "activity_types db (act_activity_type_id a) = Some ?t"
          using ok parsed_branch [of db today r p] by auto
        from parse_multi_missing [OF \<open>supports_multiple_participants ?t\<close> miss True this]
        show False using ok by simp
      next
        case False
        then have "ld_activity_type_id r = Some (fst (pr_activity_type p))"
          using ok parsed_branch [of db today r p] by auto
        from validate_multi_missing [OF \<open>supports_multiple_participants ?t\<close> miss False this ty]
        show False using ok by simp
      qed
    qed
    with True ok parsed_value [of db today r p] show ?thesis
      by (auto simp add: truthy_int_def)
  qed
next
  assume h: "supports_multiple_participants t \<and>
    \<not> (truthy_str (ld_description r) \<and> truthy_int (ld_no_of_participants r)) \<and>
    (if truthy_str (ld_activity_id r) then
       \<exists>a. activities db (the (ld_activity_id r)) = Some a \<and>
           activity_types db (act_activity_type_id a) = Some t
     else \<exists>tid. ld_activity_type_id r = Some tid \<and> activity_types db tid = Some t)"
  show "\<exists>m c. LoggedActivitiesAPI_post db today new_uuid current_user (Some r) =
               (Return (Response m c), db) \<and> (c = 400 \<or> c = 422)"
  proof (cases "validate_logged_activity db r")
    case (Some e)
    from post_validation_error [OF this] show ?thesis by blast
  next
    case None
    have "truthy_str (ld_activity_id r)"
    proof (rule ccontr)
      assume f: "\<not> truthy_str (ld_activity_id r)"
      with h obtain tid where "ld_activity_type_id r = Some tid"
        and "activity_types db tid = Some t" by auto
      with h f None validate_multi_missing [of t r tid db] show False by blast
    qed
    with h obtain a where "activities db (the (ld_activity_id r)) = Some a"
      and "activity_types db (act_activity_type_id a) = Some t" by auto
    with h \<open>truthy_str (ld_activity_id r)\<close>
    have "parse_log_activity_fields db today r =
           Return (Inl (Response
             ''Please send the number of interviewees and their names in the description'' 400))"
      using parse_multi_missing [of t r db a today] by simp
    from post_parse_error [OF None this, of new_uuid current_user] show ?thesis
      by (cases "query_get (societies db) (user_society_id (snd current_user)) = None") auto
  qed
qed

theorem multi_participant_valuation_witness:
  "validate_logged_activity example_db (log_type ''t2'' 990 (Some 3)) = None \<and>
   parse_log_activity_fields example_db 1000 (log_type ''t2'' 990 (Some 3)) =
     Return (Inr \<lparr>pr_activity = None,
                   pr_activity_type =
                     (''t2'', \<lparr>at_name = ''Bootcamp Interviews'', at_value = 10,
                              supports_multiple_participants = True\<rparr>),
                   pr_activity_date = 990, pr_activity_value = 30\<rparr>) \<and>
   validate_logged_activity example_db (log_type ''t1'' 990 None) = None \<and>
   parse_log_activity_fields example_db 1000 (log_type ''t1'' 990 None) =
     Return (Inr \<lparr>pr_activity = None,
                   pr_activity_type =
                     (''t1'', \<lparr>at_name = ''Hackathon'', at_value = 100,
                              supports_multiple_participants = False\<rparr>),
                   pr_activity_date = 990, pr_activity_value = 100\<rparr>) \<and>
   \<not> truthy_int (ld_no_of_participants (log_type ''t2'' 990 None)) \<and>
   (\<exists>m c. LoggedActivitiesAPI_post example_db 1000 ''l9'' u1 (Some (log_type ''t2'' 990 None)) =
            (Return (Response m c), example_db) \<and> (c = 400 \<or> c = 422))"
  using
    multi_participant_valuation [where db = example_db and today = 1000
      and r = "log_type ''t2'' 990 (Some 3)"
      and p = "\<lparr>pr_activity = None,
                 pr_activity_type =
                   (''t2'', \<lparr>at_name = ''Bootcamp Interviews'', at_value = 10,
                            supports_multiple_participants = True\<rparr>),
                 pr_activity_date = 990, pr_activity_value = 30\<rparr>"]
    multi_participant_valuation [where db = example_db and today = 1000
      and r = "log_type ''t1'' 990 None"
      and p = "\<lparr>pr_activity = None,
                 pr_activity_type =
                   (''t1'', \<lparr>at_name = ''Hackathon'', at_value = 100,
                            supports_multiple_participants = False\<rparr>),
                 pr_activity_date = 990, pr_activity_value = 100\<rparr>"]
    multi_participant_valuation [where db = example_db and today = 1000
      and r = "log_type ''t2'' 990 None" and new_uuid = "''l9''" and current_user = u1
      and t = "\<lparr>at_name = ''Bootcamp Interviews'', at_value = 10,
                supports_multiple_participants = True\<rparr>"]
  by (simp add: example_eval validate_logged_activity_def multi_participant_activities_def
        parse_log_activity_fields_def parse_log_activity_fields_end_def)

subsection \<open>Exactly one of the two identifiers\<close>

text \<open>
  C9. A submission that carries both an \<open>activity_id\<close> and an \<open>activity_type_id\<close>, or
  neither of them, fails the schema's validation, and the submission handler (and the
  edit handler, which loads the same schema) answers it with the validation error and 400,
  storing nothing.
\<close>

theorem both_or_neither_id_is_rejected:
  assumes "truthy_str (ld_activity_id data) = truthy_str (ld_activity_type_id data)"
  shows "validate_logged_activity db data =
           Some ''Please send either an activityTypeId or an activityId only'' \<and>
         LoggedActivitiesAPI_post db today new_uuid current_user (Some data) =
           (Return (Response ''Please send either an activityTypeId or an activityId only'' 400),
            db) \<and>
         LoggedActivityAPI_put db today current_user logged_activity_id (Some data) =
           (Return (Response ''Please send either an activityTypeId or an activityId only'' 400),
            db)"
proof -
  have v: "validate_logged_activity db data =
             Some ''Please send either an activityTypeId or an activityId only''"
    using assms by (auto simp add: validate_logged_activity_def)
  then show ?thesis
    by (simp add: LoggedActivitiesAPI_post_def LoggedActivityAPI_put_def)
qed

theorem both_or_neither_id_is_rejected_witness:
  "truthy_str (ld_activity_id both_ids) \<and> truthy_str (ld_activity_type_id both_ids) \<and>
   LoggedActivitiesAPI_post example_db 1000 ''l9'' u1 (Some both_ids) =
     (Return (Response ''Please send either an activityTypeId or an activityId only'' 400),
      example_db) \<and>
   \<not> truthy_str (ld_activity_id no_ids) \<and> \<not> truthy_str (ld_activity_type_id no_ids) \<and>
   LoggedActivitiesAPI_post example_db 1000 ''l9'' u1 (Some no_ids) =
     (Return (Response ''Please send either an activityTypeId or an activityId only'' 400),
      example_db)"
proof -
  have b: "truthy_str (ld_activity_id both_ids) = truthy_str (ld_activity_type_id both_ids)"
    by (simp add: example_eval)
  have n: "truthy_str (ld_activity_id no_ids) = truthy_str (ld_activity_type_id no_ids)"
    by (simp add: example_eval)
  show ?thesis
    using both_or_neither_id_is_rejected [OF b, of example_db 1000 "''l9''" u1]
          both_or_neither_id_is_rejected [OF n, of example_db 1000 "''l9''" u1]
    by (simp add: both_ids_def no_ids_def log_type_def truthy_str_def)
qed

subsection \<open>Handlers that miss a guard\<close>

text \<open>
  C10. Secretary review tests \<open>'status' not in payload\<close> without first testing the payload
  as its sibling handlers do: for a request without a JSON body the payload is \<open>None\<close> and
  the membership test raises \<open>TypeError\<close>; no response is built.
\<close>

theorem secretary_review_without_payload_raises:
  "SecretaryReviewLoggedActivityAPI_put db logged_activity_id JNull = (Raise TypeError, db)"
  by (simp add: SecretaryReviewLoggedActivityAPI_put_def)

text \<open>
  C1. The approval handler of redemption requests does not look at the current status.
  On the society with 100 points earned and 30 used, approving the pending request of 40
  gives 70 used; approving the same, now approved, request again is answered with 200
  and gives 110 used, and rejecting the approved request is answered with 200 and turns
  its status to rejected. The guard the claim describes is the one of
  \<open>get_redemption_request\<close>, which the handler does not call.
\<close>

theorem redemption_reapproval_credits_again:
  "map_option used_points (societies example_db ''s1'') = Some 30 \<and>
   map_option used_points (societies (snd (approve_r1 example_db)) ''s1'') = Some 70 \<and>
   map_option remaining_points (societies (snd (approve_r1 example_db)) ''s1'') = Some 30 \<and>
   map_option rr_status (redemptions (snd (approve_r1 example_db)) ''r1'') =
     Some (JStr ''approved'') \<and>
   fst (approve_r1 (snd (approve_r1 example_db))) =
     Return (Formatted ''RedemptionRequest status changed to {}'' (JStr ''approved'') 200) \<and>
   map_option used_points
     (societies (snd (approve_r1 (snd (approve_r1 example_db)))) ''s1'') = Some 110 \<and>
   fst (reject_r1 (snd (approve_r1 example_db))) =
     Return (Formatted ''RedemptionRequest status changed to {}'' (JStr ''rejected'') 200) \<and>
   map_option rr_status (redemptions (snd (reject_r1 (snd (approve_r1 example_db)))) ''r1'') =
     Some (JStr ''rejected'') \<and>
   get_redemption_request (snd (approve_r1 example_db)) ''r1'' =
     Inl (Response ''RedemptionRequest already approved or rejected'' 403)"
  by (simp add: example_eval PointRedemptionRequestNumeration_put_def approve_r1_def
        reject_r1_def set_used_points_def used_points_def total_points_def
        remaining_points_def get_redemption_request_def)

subsection \<open>Secretary review\<close>

text \<open>
  What the handler does for a payload with a \<open>status\<close> key and an item that exists: the
  status becomes \<open>pending\<close> or \<open>rejected\<close>, as the payload says, and any other requested
  status is answered with "Invalid status value." (400) and changes nothing. The current
  status of the item is not read.
\<close>

lemma secretary_review_sets_status:
  assumes "logged_activities db i = Some la" and "map_of kvs ''status'' = Some v"
  shows "SecretaryReviewLoggedActivityAPI_put db i (JObj kvs) =
           (if v = JStr ''pending'' \<or> v = JStr ''rejected'' then
              (Return (Response ''successfully changed status'' 200),
               db\<lparr>logged_activities := (logged_activities db)(i \<mapsto>
                    la\<lparr>la_status := (if v = JStr ''pending'' then ''pending'' else ''rejected'')\<rparr>)\<rparr>)
            else (Return (Response ''Invalid status value.'' 400), db))"
  using assms
  by (cases v) (auto simp add: SecretaryReviewLoggedActivityAPI_put_def)

text \<open>
  C4. Secretary review has no guard on the current status, which every other handler that
  changes a logged activity has. An approved item is moved to pending with a 200. So the
  item \<open>l1\<close>, approved once (the society's total points go from 100 to 150), is set to
  pending by the secretary and approved again: the total points are 200, the item's 50
  points credited twice.
\<close>

theorem secretary_review_moves_approved_item:
  "map_option la_status (logged_activities review_db ''l2'') = Some ''approved'' \<and>
   fst (SecretaryReviewLoggedActivityAPI_put review_db ''l2'' (status_payload ''pending'')) =
     Return (Response ''successfully changed status'' 200) \<and>
   map_option la_status
     (logged_activities
        (snd (SecretaryReviewLoggedActivityAPI_put review_db ''l2'' (status_payload ''pending'')))
        ''l2'') = Some ''pending'' \<and>
   map_option total_points (societies review_db ''s1'') = Some 100 \<and>
   map_option la_status (logged_activities approved_once ''l1'') = Some ''approved'' \<and>
   map_option total_points (societies approved_once ''s1'') = Some 150 \<and>
   fst (SecretaryReviewLoggedActivityAPI_put approved_once ''l1'' (status_payload ''pending'')) =
     Return (Response ''successfully changed status'' 200) \<and>
   map_option la_status (logged_activities reviewed_again ''l1'') = Some ''pending'' \<and>
   fst (LoggedActivityApprovalAPI_put no_row reviewed_again (ids_payload [''l1''])) =
     Return (Response ''Activity edited successfully'' 200) \<and>
   map_option total_points (societies approved_twice ''s1'') = Some 200"
  by (simp add: example_eval approved_once_def reviewed_again_def approved_twice_def
        SecretaryReviewLoggedActivityAPI_put_def LoggedActivityApprovalAPI_put_def
        LoggedActivity_query_get_def set_total_points_def total_points_def)

subsection \<open>Edit and delete\<close>

lemma own_logged_activity_Some:
  "own_logged_activity db (Some i) cu =
     (case logged_activities db i of
        None \<Rightarrow> None
      | Some la \<Rightarrow> if la_user_id la = fst cu then Some (i, la) else None)"
  by (simp add: own_logged_activity_def query_get_def split: option.splits)

lemma parse_response_code:
  "parse_log_activity_fields db today r = Return (Inl (Response m c)) \<Longrightarrow> c = 400 \<or> c = 422"
  by (auto simp add: parse_log_activity_fields_def parse_log_activity_fields_end_def
        split: if_splits option.splits)

lemma edit_not_in_review:
  assumes "logged_activities db i = Some la" and "la_status la \<noteq> ''in review''"
  shows "LoggedActivityAPI_put db today cu (Some i) payload =
           (case payload of
              None \<Rightarrow> (Return (Response ''Data for creation must be provided.'' 400), db)
            | Some r \<Rightarrow>
               (case validate_logged_activity db r of
                  Some e \<Rightarrow> (Return (Response e 400), db)
                | None \<Rightarrow>
                   if la_user_id la = fst cu then
                     (Return (Response ''Not allowed. Activity is already in pre-approval.'' 401),
                      db)
                   else (Return (Response ''Logged activity does not exist'' 404), db)))"
  using assms
  by (simp add: LoggedActivityAPI_put_def own_logged_activity_Some split: option.splits)

lemma edit_not_owner:
  assumes "logged_activities db i = Some la" and "la_user_id la \<noteq> fst cu"
  shows "LoggedActivityAPI_put db today cu (Some i) payload =
           (case payload of
              None \<Rightarrow> (Return (Response ''Data for creation must be provided.'' 400), db)
            | Some r \<Rightarrow>
               (case validate_logged_activity db r of
                  Some e \<Rightarrow> (Return (Response e 400), db)
                | None \<Rightarrow> (Return (Response ''Logged activity does not exist'' 404), db)))"
  using assms
  by (simp add: LoggedActivityAPI_put_def own_logged_activity_Some split: option.splits)

lemma delete_cases:
  assumes "logged_activities db i = Some la"
  shows "LoggedActivityAPI_delete db cu (Some i) =
           (if la_user_id la \<noteq> fst cu then
              (Return (Response ''Logged Activity does not exist!'' 404), db)
            else if la_status la \<noteq> ''in review'' then
              (Return (Response ''You are not allowed to perform this operation'' 403), db)
            else (Return (Response [] 204),
                  db\<lparr>logged_activities := (logged_activities db)(i := None)\<rparr>))"
  using assms
  by (simp add: LoggedActivityAPI_delete_def own_logged_activity_Some)

lemma edit_success:
  assumes "LoggedActivityAPI_put db today cu (Some i) (Some r) = (Return (Response m 200), db')"
  shows "\<exists>la p. logged_activities db i = Some la \<and> la_user_id la = fst cu \<and>
           la_status la = ''in review'' \<and> validate_logged_activity db r = None \<and>
           parse_log_activity_fields db today (edit_defaults la r) = Return (Inr p) \<and>
           db' = db\<lparr>logged_activities := (logged_activities db)(i \<mapsto>
                    la\<lparr>la_name := ld_name (edit_defaults la r),
                       la_description := ld_description (edit_defaults la r),
                       la_activity_id := map_option fst (pr_activity p),
                       la_photo := ld_photo (edit_defaults la r),
                       la_value := pr_activity_value p,
                       la_activity_type_id := fst (pr_activity_type p),
                       la_activity_date := pr_activity_date p\<rparr>)\<rparr>"
proof (cases "validate_logged_activity db r")
  case (Some e)
  with assms show ?thesis by (simp add: LoggedActivityAPI_put_def)
next
  case None
  show ?thesis
  proof (cases "logged_activities db i")
    case None
    with assms \<open>validate_logged_activity db r = None\<close> show ?thesis
      by (simp add: LoggedActivityAPI_put_def own_logged_activity_Some)
  next
    case (Some la)
    show ?thesis
    proof (cases "la_user_id la = fst cu \<and> la_status la = ''in review''")
      case False
      with assms Some \<open>validate_logged_activity db r = None\<close> show ?thesis
        by (auto simp add: LoggedActivityAPI_put_def own_logged_activity_Some split: if_splits)
    next
      case True
      show ?thesis
      proof (cases "parse_log_activity_fields db today (edit_defaults la r)")
        case (Raise e)
        with assms Some True \<open>validate_logged_activity db r = None\<close> show ?thesis
          by (simp add: LoggedActivityAPI_put_def own_logged_activity_Some)
      next
        case (Return x)
        show ?thesis
        proof (cases x)
          case (Inl resp)
          with Return assms Some True \<open>validate_logged_activity db r = None\<close>
          have "resp = Response m 200"
            by (simp add: LoggedActivityAPI_put_def own_logged_activity_Some)
          with Return Inl parse_response_code [of db today "edit_defaults la r" m 200]
          show ?thesis by simp
        next
          case (Inr p)
          with Return assms Some True \<open>validate_logged_activity db r = None\<close> show ?thesis
            by (auto simp add: LoggedActivityAPI_put_def own_logged_activity_Some Let_def)
        qed
      qed
    qed
  qed
qed

text \<open>
  C8. An edit or a delete of a logged activity whose status is not \<open>in review\<close> is
  answered with a failure and leaves the database as it was: for the owner, the edit of a
  payload that passes the schema is answered with "Not allowed. Activity is already in
  pre-approval." (401) and the delete with "You are not allowed to perform this
  operation" (403); a payload that fails the schema is answered with 400 before the
  guard is reached. For any other user the item does not exist (404, or 400 for a payload
  that fails the schema) and nothing changes. An edit that succeeds is by the owner, on an
  item in review, and stores the value \<open>parse_log_activity_fields\<close> computes from the new
  inputs.
\<close>

theorem edit_delete_only_in_review_by_owner:
  "(logged_activities db i = Some la \<and> la_status la \<noteq> ''in review'' \<longrightarrow>
      (\<exists>m c. LoggedActivityAPI_put db today cu (Some i) payload = (Return (Response m c), db) \<and>
             (c = 400 \<or> c = 401 \<or> c = 404)) \<and>
      (la_user_id la = fst cu \<and> validate_logged_activity db r = None \<longrightarrow>
         LoggedActivityAPI_put db today cu (Some i) (Some r) =
           (Return (Response ''Not allowed. Activity is already in pre-approval.'' 401), db)) \<and>
      (\<exists>m c. LoggedActivityAPI_delete db cu (Some i) = (Return (Response m c), db) \<and>
             (c = 403 \<or> c = 404)) \<and>
      (la_user_id la = fst cu \<longrightarrow>
         LoggedActivityAPI_delete db cu (Some i) =
           (Return (Response ''You are not allowed to perform this operation'' 403), db)))
   \<and>
   (logged_activities db i = Some la \<and> la_user_id la \<noteq> fst cu \<longrightarrow>
      (\<exists>m c. LoggedActivityAPI_put db today cu (Some i) payload = (Return (Response m c), db) \<and>
             (c = 400 \<or> c = 404)) \<and>
      LoggedActivityAPI_delete db cu (Some i) =
        (Return (Response ''Logged Activity does not exist!'' 404), db))
   \<and>
   (LoggedActivityAPI_put db today cu (Some i) (Some r) = (Return (Response m 200), db') \<longrightarrow>
      (\<exists>la p. logged_activities db i = Some la \<and> la_user_id la = fst cu \<and>
             la_status la = ''in review'' \<and>
             parse_log_activity_fields db today (edit_defaults la r) = Return (Inr p) \<and>
             map_option la_value (logged_activities db' i) = Some (pr_activity_value p)))"
proof (intro conjI impI)
  assume h: "logged_activities db i = Some la \<and> la_status la \<noteq> ''in review''"
  then show "\<exists>m c. LoggedActivityAPI_put db today cu (Some i) payload =
                     (Return (Response m c), db) \<and> (c = 400 \<or> c = 401 \<or> c = 404)"
    by (simp add: edit_not_in_review split: option.splits)
  from h show "\<exists>m c. LoggedActivityAPI_delete db cu (Some i) = (Return (Response m c), db) \<and>
                     (c = 403 \<or> c = 404)"
    by (simp add: delete_cases)
  { assume "la_user_id la = fst cu \<and> validate_logged_activity db r = None"
    with h show "LoggedActivityAPI_put db today cu (Some i) (Some r) =
        (Return (Response ''Not allowed. Activity is already in pre-approval.'' 401), db)"
      by (simp add: edit_not_in_review) }
  { assume "la_user_id la = fst cu"
    with h show "LoggedActivityAPI_delete db cu (Some i) =
        (Return (Response ''You are not allowed to perform this operation'' 403), db)"
      by (simp add: delete_cases) }
next
  assume h: "logged_activities db i = Some la \<and> la_user_id la \<noteq> fst cu"
  then show "\<exists>m c. LoggedActivityAPI_put db today cu (Some i) payload =
                     (Return (Response m c), db) \<and> (c = 400 \<or> c = 404)"
    by (simp add: edit_not_owner split: option.splits)
  from h show "LoggedActivityAPI_delete db cu (Some i) =
                 (Return (Response ''Logged Activity does not exist!'' 404), db)"
    by (simp add: delete_cases)
next
  assume "LoggedActivityAPI_put db today cu (Some i) (Some r) = (Return (Response m 200), db')"
  from edit_success [OF this] show "\<exists>la p. logged_activities db i = Some la \<and>
      la_user_id la = fst cu \<and> la_status la = ''in review'' \<and>
      parse_log_activity_fields db today (edit_defaults la r) = Return (Inr p) \<and>
      map_option la_value (logged_activities db' i) = Some (pr_activity_value p)"
    by auto
qed

theorem edit_delete_only_in_review_by_owner_witness:
  "LoggedActivityAPI_put review_db 1000 u1 (Some ''l2'') (Some (log_type ''t2'' 990 (Some 3))) =
     (Return (Response ''Not allowed. Activity is already in pre-approval.'' 401), review_db) \<and>
   LoggedActivityAPI_delete review_db u1 (Some ''l2'') =
     (Return (Response ''You are not allowed to perform this operation'' 403), review_db) \<and>
   LoggedActivityAPI_delete review_db u2 (Some ''l3'') =
     (Return (Response ''Logged Activity does not exist!'' 404), review_db) \<and>
   LoggedActivityAPI_put review_db 1000 u1 (Some ''l3'') (Some (log_type ''t2'' 990 (Some 3))) =
     (Return (Response ''Activity edited successfully'' 200),
      review_db\<lparr>logged_activities := (logged_activities review_db)(''l3'' \<mapsto>
        (logged 30 ''in review'')
          \<lparr>la_name := Some ''Interviews'', la_description := Some ''Ada, Grace, Alan'',
           la_activity_type_id := ''t2''\<rparr>)\<rparr>) \<and>
   (\<exists>la p. logged_activities review_db ''l3'' = Some la \<and> la_user_id la = fst u1 \<and>
          la_status la = ''in review'' \<and>
          parse_log_activity_fields review_db 1000
            (edit_defaults la (log_type ''t2'' 990 (Some 3))) = Return (Inr p) \<and>
          pr_activity_value p = 30)"
  using
    edit_delete_only_in_review_by_owner [where db = review_db and i = "''l2''"
      and la = "logged 20 ''approved''" and cu = u1 and today = 1000
      and r = "log_type ''t2'' 990 (Some 3)"]
    edit_delete_only_in_review_by_owner [where db = review_db and i = "''l3''"
      and la = "logged 100 ''in review''" and cu = u2]
    edit_delete_only_in_review_by_owner [where db = review_db and i = "''l3''"
      and cu = u1 and today = 1000 and r = "log_type ''t2'' 990 (Some 3)"
      and m = "''Activity edited successfully''"
      and db' = "review_db\<lparr>logged_activities := (logged_activities review_db)(''l3'' \<mapsto>
        (logged 30 ''in review'')
          \<lparr>la_name := Some ''Interviews'', la_description := Some ''Ada, Grace, Alan'',
           la_activity_type_id := ''t2''\<rparr>)\<rparr>"]
  by (simp add: example_eval LoggedActivityAPI_put_def LoggedActivityAPI_delete_def
        own_logged_activity_def edit_defaults_def validate_logged_activity_def
        multi_participant_activities_def parse_log_activity_fields_def
        parse_log_activity_fields_end_def)

subsection \<open>Approval\<close>

lemma unique_activities_ids_strings:
  "\<exists>u. unique_activities_ids ident db (map JStr ids) acc = Inr u \<and>
       set u = set acc \<union>
         {i \<in> set ids. \<exists>la. logged_activities db i = Some la \<and> pending_item la} \<and>
       (distinct acc \<longrightarrow> distinct u)"
proof (induction ids arbitrary: acc)
  case Nil
  then show ?case by simp
next
  case (Cons i ids)
  show ?case
  proof (cases "logged_activities db i")
    case None
    with Cons [of acc] show ?thesis
      by (auto simp add: LoggedActivity_query_get_def query_get_def)
  next
    case (Some la)
    show ?thesis
    proof (cases "pending_item la")
      case False
      with Some Cons [of acc] show ?thesis
        by (auto simp add: LoggedActivity_query_get_def query_get_def)
    next
      case True
      with Some Cons [of "List.insert i acc"] show ?thesis
        by (auto simp add: LoggedActivity_query_get_def query_get_def)
    qed
  qed
qed

lemma query_get_Some:
  "query_get table k = Some (i, row) \<Longrightarrow> table i = Some row"
  by (auto simp add: query_get_def split: option.splits)

lemma unique_activities_ids_pending:
  assumes "unique_activities_ids ident db ids acc = Inr u"
    and "distinct acc"
    and "\<forall>i\<in>set acc. \<exists>la. logged_activities db i = Some la \<and> pending_item la"
  shows "distinct u \<and> (\<forall>i\<in>set u. \<exists>la. logged_activities db i = Some la \<and> pending_item la)"
  using assms
proof (induction ids arbitrary: acc)
  case Nil
  then show ?case by simp
next
  case (Cons v ids)
  show ?case
  proof (cases "LoggedActivity_query_get ident db v")
    case (Inl e)
    with Cons.prems show ?thesis by simp
  next
    case (Inr found)
    show ?thesis
    proof (cases found)
      case None
      with Inr Cons show ?thesis by simp
    next
      case (Some entity)
      obtain i la where entity: "entity = (i, la)" by (cases entity)
      have row: "logged_activities db i = Some la"
        using Inr Some entity
        by (auto simp add: LoggedActivity_query_get_def split: sum.splits dest: query_get_Some)
      show ?thesis
      proof (cases "pending_item la")
        case False
        with Inr Some entity Cons.prems have "unique_activities_ids ident db ids acc = Inr u"
          by (auto split: if_splits)
        from Cons.IH [OF this Cons.prems(2) Cons.prems(3)] show ?thesis .
      next
        case True
        with Inr Some entity Cons.prems
        have run: "unique_activities_ids ident db ids (List.insert i acc) = Inr u"
          by (auto split: if_splits)
        have d: "distinct (List.insert i acc)" using Cons.prems(2) by simp
        have p: "\<forall>j\<in>set (List.insert i acc).
                   \<exists>l. logged_activities db j = Some l \<and> pending_item l"
          using Cons.prems(3) row True by auto
        from Cons.IH [OF run d p] show ?thesis .
      qed
    qed
  qed
qed

text \<open>
  The second loop on a list without repetition of rows that exist: it stops at the first
  item whose society does not resolve; the items up to there, \<open>ys\<close>, are approved and
  credited.
\<close>

lemma approve_each_effect:
  assumes "distinct xs" and "set xs \<subseteq> dom (logged_activities db)"
  shows "\<exists>ys. distinct ys \<and> set ys \<subseteq> set xs \<and>
           (fst (approve_each db xs) = None \<longrightarrow> ys = xs) \<and>
           ((\<forall>i la. logged_activities db i = Some la \<longrightarrow>
               societies db (la_society_id la) \<noteq> None) \<longrightarrow> fst (approve_each db xs) = None) \<and>
           snd (approve_each db xs) =
             db\<lparr>logged_activities :=
                  (\<lambda>i. if i \<in> set ys
                       then map_option (\<lambda>la. la\<lparr>la_status := ''approved''\<rparr>)
                              (logged_activities db i)
                       else logged_activities db i),
                societies :=
                  (\<lambda>s. map_option
                         (\<lambda>soc. soc\<lparr>db_total_points :=
                                   db_total_points soc + (\<Sum>i\<leftarrow>ys. credit_to db s i)\<rparr>)
                         (societies db s))\<rparr>"
  using assms
proof (induction xs arbitrary: db)
  case Nil
  have "(\<lambda>s. map_option (\<lambda>soc. soc\<lparr>db_total_points := db_total_points soc\<rparr>) (societies db s)) =
        societies db"
    by (rule ext) (simp add: option.map_ident)
  then show ?case by simp
next
  case (Cons i rest)
  from Cons.prems(2) obtain la where la: "logged_activities db i = Some la" by auto
  let ?approved = "la\<lparr>la_status := ''approved''\<rparr>"
  have notin: "i \<notin> set rest" and d2: "distinct rest" using Cons.prems(1) by auto
  show ?case
  proof (cases "societies db (la_society_id la)")
    case None
    let ?db1 = "db\<lparr>logged_activities := (logged_activities db)(i \<mapsto> ?approved)\<rparr>"
    have step: "approve_each db (i # rest) = (Some AttributeError, ?db1)"
      using la None by (simp add: Let_def)
    have las: "(logged_activities db)(i \<mapsto> ?approved) =
               (\<lambda>j. if j \<in> set [i]
                    then map_option (\<lambda>l. l\<lparr>la_status := ''approved''\<rparr>) (logged_activities db j)
                    else logged_activities db j)"
      using la by (intro ext) auto
    have socs: "societies db =
                (\<lambda>s. map_option
                   (\<lambda>soc. soc\<lparr>db_total_points :=
                             db_total_points soc + (\<Sum>j\<leftarrow>[i]. credit_to db s j)\<rparr>)
                   (societies db s))"
    proof (rule ext)
      fix s
      show "societies db s =
            map_option
              (\<lambda>soc. soc\<lparr>db_total_points :=
                        db_total_points soc + (\<Sum>j\<leftarrow>[i]. credit_to db s j)\<rparr>)
              (societies db s)"
        using la None by (cases "societies db s") auto
    qed
    have A: "snd (approve_each db (i # rest)) =
            db\<lparr>logged_activities :=
                 (\<lambda>j. if j \<in> set [i]
                      then map_option (\<lambda>l. l\<lparr>la_status := ''approved''\<rparr>) (logged_activities db j)
                      else logged_activities db j),
               societies :=
                 (\<lambda>s. map_option
                        (\<lambda>soc. soc\<lparr>db_total_points :=
                                  db_total_points soc + (\<Sum>j\<leftarrow>[i]. credit_to db s j)\<rparr>)
                        (societies db s))\<rparr>"
      unfolding step using las socs by simp
    have B: "fst (approve_each db (i # rest)) \<noteq> None" unfolding step by simp
    have C: "\<not> (\<forall>j l. logged_activities db j = Some l \<longrightarrow>
                         societies db (la_society_id l) \<noteq> None)"
      using la None by blast
    show ?thesis
    proof (intro exI [of _ "[i]"] conjI)
      show "distinct [i]" by simp
      show "set [i] \<subseteq> set (i # rest)" by simp
      show "fst (approve_each db (i # rest)) = None \<longrightarrow> [i] = i # rest"
        using B by blast
      show "(\<forall>j l. logged_activities db j = Some l \<longrightarrow>
               societies db (la_society_id l) \<noteq> None) \<longrightarrow>
            fst (approve_each db (i # rest)) = None"
        using C by blast
      show "snd (approve_each db (i # rest)) =
            db\<lparr>logged_activities :=
                 (\<lambda>j. if j \<in> set [i]
                      then map_option (\<lambda>l. l\<lparr>la_status := ''approved''\<rparr>) (logged_activities db j)
                      else logged_activities db j),
               societies :=
                 (\<lambda>s. map_option
                        (\<lambda>soc. soc\<lparr>db_total_points :=
                                  db_total_points soc + (\<Sum>j\<leftarrow>[i]. credit_to db s j)\<rparr>)
                        (societies db s))\<rparr>"
        by (rule A)
    qed
  next
    case (Some owner)
    let ?db2 = "db\<lparr>logged_activities := (logged_activities db)(i \<mapsto> ?approved),
                   societies := (societies db)(la_society_id la \<mapsto>
                      set_total_points owner ?approved)\<rparr>"
    have step: "approve_each db (i # rest) = approve_each ?db2 rest"
      using la Some by (simp add: Let_def)
    have sub2: "set rest \<subseteq> dom (logged_activities ?db2)" using Cons.prems(2) by auto
    from Cons.IH [OF d2 sub2] obtain ys where ysall:
      "distinct ys \<and> set ys \<subseteq> set rest \<and>
       (fst (approve_each ?db2 rest) = None \<longrightarrow> ys = rest) \<and>
       ((\<forall>i la. logged_activities ?db2 i = Some la \<longrightarrow>
           societies ?db2 (la_society_id la) \<noteq> None) \<longrightarrow> fst (approve_each ?db2 rest) = None) \<and>
       snd (approve_each ?db2 rest) =
         ?db2\<lparr>logged_activities :=
              (\<lambda>i. if i \<in> set ys
                   then map_option (\<lambda>la. la\<lparr>la_status := ''approved''\<rparr>)
                          (logged_activities ?db2 i)
                   else logged_activities ?db2 i),
            societies :=
              (\<lambda>s. map_option
                     (\<lambda>soc. soc\<lparr>db_total_points :=
                               db_total_points soc + (\<Sum>i\<leftarrow>ys. credit_to ?db2 s i)\<rparr>)
                     (societies ?db2 s))\<rparr>" ..
    note ys = ysall [THEN conjunct1] ysall [THEN conjunct2, THEN conjunct1]
      ysall [THEN conjunct2, THEN conjunct2, THEN conjunct1]
      ysall [THEN conjunct2, THEN conjunct2, THEN conjunct2, THEN conjunct1]
    note res = ysall [THEN conjunct2, THEN conjunct2, THEN conjunct2, THEN conjunct2]
    have iys: "i \<notin> set ys" using notin ys(2) by auto
    have credit2: "(\<Sum>j\<leftarrow>ys. credit_to ?db2 s j) = (\<Sum>j\<leftarrow>ys. credit_to db s j)" for s
      using iys by (intro arg_cong [where f = sum_list] map_cong) auto
    have las: "(\<lambda>j. if j \<in> set ys
                 then map_option (\<lambda>l. l\<lparr>la_status := ''approved''\<rparr>) (logged_activities ?db2 j)
                 else logged_activities ?db2 j) =
             (\<lambda>j. if j \<in> set (i # ys)
                 then map_option (\<lambda>l. l\<lparr>la_status := ''approved''\<rparr>) (logged_activities db j)
                 else logged_activities db j)"
      using iys la by (intro ext) auto
    have socs: "(\<lambda>s. map_option
                 (\<lambda>soc. soc\<lparr>db_total_points :=
                           db_total_points soc + (\<Sum>j\<leftarrow>ys. credit_to ?db2 s j)\<rparr>)
                 (societies ?db2 s)) =
              (\<lambda>s. map_option
                 (\<lambda>soc. soc\<lparr>db_total_points :=
                           db_total_points soc + (\<Sum>j\<leftarrow>i # ys. credit_to db s j)\<rparr>)
                 (societies db s))"
    proof (rule ext)
      fix s
      show "map_option
              (\<lambda>soc. soc\<lparr>db_total_points :=
                        db_total_points soc + (\<Sum>j\<leftarrow>ys. credit_to ?db2 s j)\<rparr>)
              (societies ?db2 s) =
            map_option
              (\<lambda>soc. soc\<lparr>db_total_points :=
                        db_total_points soc + (\<Sum>j\<leftarrow>i # ys. credit_to db s j)\<rparr>)
              (societies db s)"
        unfolding credit2
        using la Some by (cases "s = la_society_id la") (auto simp add: set_total_points_def)
    qed
    have fk: "(\<forall>j l. logged_activities db j = Some l \<longrightarrow> societies db (la_society_id l) \<noteq> None) \<longrightarrow>
              (\<forall>j l. logged_activities ?db2 j = Some l \<longrightarrow> societies ?db2 (la_society_id l) \<noteq> None)"
      using la by auto
    have A: "snd (approve_each db (i # rest)) =
            db\<lparr>logged_activities :=
                 (\<lambda>j. if j \<in> set (i # ys)
                      then map_option (\<lambda>l. l\<lparr>la_status := ''approved''\<rparr>) (logged_activities db j)
                      else logged_activities db j),
               societies :=
                 (\<lambda>s. map_option
                        (\<lambda>soc. soc\<lparr>db_total_points :=
                                  db_total_points soc + (\<Sum>j\<leftarrow>i # ys. credit_to db s j)\<rparr>)
                        (societies db s))\<rparr>"
      unfolding step res using las socs by simp
    show ?thesis
    proof (intro exI [of _ "i # ys"] conjI)
      show "distinct (i # ys)" using ys iys by simp
      show "set (i # ys) \<subseteq> set (i # rest)" using ys by auto
      show "fst (approve_each db (i # rest)) = None \<longrightarrow> i # ys = i # rest"
        unfolding step using ys(3) by simp
      show "(\<forall>j l. logged_activities db j = Some l \<longrightarrow>
               societies db (la_society_id l) \<noteq> None) \<longrightarrow>
            fst (approve_each db (i # rest)) = None"
        unfolding step using ys(4) fk by blast
      show "snd (approve_each db (i # rest)) =
            db\<lparr>logged_activities :=
                 (\<lambda>j. if j \<in> set (i # ys)
                      then map_option (\<lambda>l. l\<lparr>la_status := ''approved''\<rparr>) (logged_activities db j)
                      else logged_activities db j),
               societies :=
                 (\<lambda>s. map_option
                        (\<lambda>soc. soc\<lparr>db_total_points :=
                                  db_total_points soc + (\<Sum>j\<leftarrow>i # ys. credit_to db s j)\<rparr>)
                        (societies db s))\<rparr>"
        by (rule A)
    qed
  qed
qed

lemma approve_each_result:
  assumes "\<forall>i la. logged_activities db i = Some la \<longrightarrow> societies db (la_society_id la) \<noteq> None"
    and "distinct xs" and "set xs \<subseteq> dom (logged_activities db)"
  shows "approve_each db xs =
           (None,
            db\<lparr>logged_activities :=
                 (\<lambda>i. if i \<in> set xs
                      then map_option (\<lambda>la. la\<lparr>la_status := ''approved''\<rparr>) (logged_activities db i)
                      else logged_activities db i),
               societies :=
                 (\<lambda>s. map_option
                        (\<lambda>soc. soc\<lparr>db_total_points :=
                                  db_total_points soc + (\<Sum>i\<leftarrow>xs. credit_to db s i)\<rparr>)
                        (societies db s))\<rparr>)"
proof -
  from approve_each_effect [OF assms(2) assms(3)] obtain ys where
    "fst (approve_each db xs) = None \<longrightarrow> ys = xs"
    "(\<forall>i la. logged_activities db i = Some la \<longrightarrow> societies db (la_society_id la) \<noteq> None) \<longrightarrow>
       fst (approve_each db xs) = None"
    "snd (approve_each db xs) =
       db\<lparr>logged_activities :=
            (\<lambda>i. if i \<in> set ys
                 then map_option (\<lambda>la. la\<lparr>la_status := ''approved''\<rparr>) (logged_activities db i)
                 else logged_activities db i),
          societies :=
            (\<lambda>s. map_option
                   (\<lambda>soc. soc\<lparr>db_total_points :=
                             db_total_points soc + (\<Sum>i\<leftarrow>ys. credit_to db s i)\<rparr>)
                   (societies db s))\<rparr>"
    by (elim exE conjE)
  with assms(1) show ?thesis
    by (simp add: prod_eq_iff del: approve_each.simps)
qed

lemma approval_on_ids:
  assumes "ids \<noteq> []" and "length ids \<le> 20"
    and "unique_activities_ids ident db (map JStr ids) [] = Inr unique"
  shows "LoggedActivityApprovalAPI_put ident db (ids_payload ids) =
           (if unique = [] then
              (Return (Response
                 ''Invalid logged activities or no pending logged activities in request'' 400), db)
            else case approve_each db unique of
                   (Some e, db') \<Rightarrow> (Raise e, db')
                 | (None, db') \<Rightarrow> (Return (Response ''Activity edited successfully'' 200), db'))"
  using assms by (simp add: LoggedActivityApprovalAPI_put_def ids_payload_def)

text \<open>
  The order in which \<open>list(unique_activities_ids)\<close> yields the set's elements does not
  matter.
\<close>

lemma approve_each_order:
  assumes "\<forall>i la. logged_activities db i = Some la \<longrightarrow> societies db (la_society_id la) \<noteq> None"
    and "distinct xs" and "distinct ys" and "set xs = set ys"
    and "set xs \<subseteq> dom (logged_activities db)"
  shows "approve_each db xs = approve_each db ys"
  using assms
  by (simp add: approve_each_result sum_list_distinct_conv_sum_set)

text \<open>
  C2. Approval of a list of at most 20 identifiers, in a database where every logged
  activity's society exists. \<open>E\<close> is the set of the listed items that exist, are not
  redeemed and whose status is none of rejected, in review, approved. When \<open>E\<close> is empty
  the call is answered with 400 and changes nothing. Otherwise it is answered with 200;
  every society's total points grow by the sum of the stored values of its items in
  \<open>E\<close>, each counted once however often it is listed; the items of \<open>E\<close> become approved
  and every other item is as before; and the same call made again is answered with 400
  and changes nothing.
\<close>

theorem approval_credits_each_item_once:
  assumes fk: "\<forall>i la. logged_activities db i = Some la \<longrightarrow> societies db (la_society_id la) \<noteq> None"
    and ne: "ids \<noteq> []" and le: "length ids \<le> 20"
    and E: "E = {i \<in> set ids. \<exists>la. logged_activities db i = Some la \<and> pending_item la}"
    and run: "LoggedActivityApprovalAPI_put ident db (ids_payload ids) = (res, db')"
  shows "if E = {} then
           res = Return (Response
                   ''Invalid logged activities or no pending logged activities in request'' 400) \<and>
           db' = db
         else
           res = Return (Response ''Activity edited successfully'' 200) \<and>
           (\<forall>s soc. societies db s = Some soc \<longrightarrow>
              societies db' s =
                Some (soc\<lparr>db_total_points := db_total_points soc + (\<Sum>i\<in>E. credit_to db s i)\<rparr>)) \<and>
           (\<forall>i. logged_activities db' i =
                  (if i \<in> E
                   then map_option (\<lambda>la. la\<lparr>la_status := ''approved''\<rparr>) (logged_activities db i)
                   else logged_activities db i)) \<and>
           LoggedActivityApprovalAPI_put ident db' (ids_payload ids) =
             (Return (Response
                ''Invalid logged activities or no pending logged activities in request'' 400), db')"
proof -
  from unique_activities_ids_strings [of ident db ids "[]"] obtain unique where
    u: "unique_activities_ids ident db (map JStr ids) [] = Inr unique"
    and setu: "set unique = E" and distu: "distinct unique"
    using E by auto
  show ?thesis
  proof (cases "E = {}")
    case True
    with setu have "unique = []" by simp
    with run True show ?thesis by (simp add: approval_on_ids [OF ne le u])
  next
    case False
    with setu have nonempty: "unique \<noteq> []" by auto
    have sub: "set unique \<subseteq> dom (logged_activities db)"
      unfolding setu E by auto
    note res = approve_each_result [OF fk distu sub]
    have db': "db' = db\<lparr>logged_activities :=
                 (\<lambda>i. if i \<in> E
                      then map_option (\<lambda>la. la\<lparr>la_status := ''approved''\<rparr>) (logged_activities db i)
                      else logged_activities db i),
               societies :=
                 (\<lambda>s. map_option
                        (\<lambda>soc. soc\<lparr>db_total_points :=
                                  db_total_points soc + (\<Sum>i\<in>E. credit_to db s i)\<rparr>)
                        (societies db s))\<rparr>"
      and r: "res = Return (Response ''Activity edited successfully'' 200)"
      using run nonempty
      by (simp_all add: approval_on_ids [OF ne le u] res setu
            sum_list_distinct_conv_sum_set [OF distu])
    have again: "{i \<in> set ids. \<exists>la. logged_activities db' i = Some la \<and> pending_item la} = {}"
      unfolding db' E by auto
    from unique_activities_ids_strings [of ident db' ids "[]"] obtain unique' where
      u': "unique_activities_ids ident db' (map JStr ids) [] = Inr unique'"
      and su': "set unique' = set [] \<union>
         {i \<in> set ids. \<exists>la. logged_activities db' i = Some la \<and> pending_item la}"
      by blast
    from su' have "set unique' = {}" unfolding again by simp
    then have "unique' = []" by simp
    with u' have second: "LoggedActivityApprovalAPI_put ident db' (ids_payload ids) =
             (Return (Response
                ''Invalid logged activities or no pending logged activities in request'' 400), db')"
      by (simp add: approval_on_ids [OF ne le u'])
    from False r second show ?thesis
      by (simp add: db')
  qed
qed

theorem approval_credits_each_item_once_witness:
  "fst (LoggedActivityApprovalAPI_put no_row review_db (ids_payload batch)) =
     Return (Response ''Activity edited successfully'' 200) \<and>
   societies review_db ''s1'' = Some \<lparr>db_total_points = 100, db_used_points = 30\<rparr> \<and>
   societies (snd (LoggedActivityApprovalAPI_put no_row review_db (ids_payload batch))) ''s1'' =
     Some \<lparr>db_total_points = 150, db_used_points = 30\<rparr> \<and>
   logged_activities (snd (LoggedActivityApprovalAPI_put no_row review_db (ids_payload batch)))
       ''l1'' =
     Some (logged 50 ''approved'') \<and>
   logged_activities (snd (LoggedActivityApprovalAPI_put no_row review_db (ids_payload batch)))
       ''l4'' =
     Some (logged 5 ''rejected'') \<and>
   LoggedActivityApprovalAPI_put no_row
       (snd (LoggedActivityApprovalAPI_put no_row review_db (ids_payload batch)))
       (ids_payload batch) =
     (Return (Response
        ''Invalid logged activities or no pending logged activities in request'' 400),
      snd (LoggedActivityApprovalAPI_put no_row review_db (ids_payload batch)))"
proof -
  have fk: "\<forall>i la. logged_activities review_db i = Some la \<longrightarrow>
              societies review_db (la_society_id la) \<noteq> None"
    by (simp add: review_db_def example_db_def logged_def)
  have ne: "batch \<noteq> []" and le: "length batch \<le> 20"
    by (simp_all add: batch_def)
  have E: "{''l1''} =
           {i \<in> set batch. \<exists>la. logged_activities review_db i = Some la \<and> pending_item la}"
    by (auto simp add: batch_def review_db_def logged_def)
  have run: "LoggedActivityApprovalAPI_put no_row review_db (ids_payload batch) =
               (fst (LoggedActivityApprovalAPI_put no_row review_db (ids_payload batch)),
                snd (LoggedActivityApprovalAPI_put no_row review_db (ids_payload batch)))"
    by simp
  have s: "societies review_db ''s1'' = Some \<lparr>db_total_points = 100, db_used_points = 30\<rparr>"
    by (simp add: review_db_def example_db_def)
  show ?thesis
    using approval_credits_each_item_once [OF fk ne le E run] s
    by (simp add: review_db_def logged_def)
qed

text \<open>
  What the handler does with a batch that is too long or empty, and with a falsy payload.
\<close>

lemma approval_batch_too_long:
  "length ids > 20 \<Longrightarrow>
   LoggedActivityApprovalAPI_put ident db (JObj [(''loggedActivitiesIds'', JArr ids)]) =
     (Return (Response
        ''Sorry, you can not approve more than 20 logged_activities at a go'' 403), db)"
  by (auto simp add: LoggedActivityApprovalAPI_put_def)

lemma approval_batch_empty:
  "LoggedActivityApprovalAPI_put ident db (JObj [(''loggedActivitiesIds'', JArr [])]) =
     (Return (Response
        ''A List/Array with at least one logged activity id is needed!'' 400), db)"
  by (simp add: LoggedActivityApprovalAPI_put_def)

lemma approval_no_payload:
  "\<not> truthy payload \<Longrightarrow>
   LoggedActivityApprovalAPI_put ident db payload =
     (Return (Response ''Data for creation must be provided.'' 400), db)"
  by (simp add: LoggedActivityApprovalAPI_put_def)

text \<open>
  C3. The handler takes \<open>len(logged_activities_ids)\<close> before it tests that the value is a
  list. A number has no length, so the identifiers \<open>5\<close> raise \<open>TypeError\<close>; a string of 21
  characters is answered with the batch limit's 403; only a shorter string reaches the
  test and is answered with 400.
\<close>

theorem approval_of_ids_that_are_not_a_list:
  "LoggedActivityApprovalAPI_put ident db (JObj [(''loggedActivitiesIds'', JNum 5)]) =
     (Raise TypeError, db) \<and>
   LoggedActivityApprovalAPI_put ident db
       (JObj [(''loggedActivitiesIds'', JStr ''l1,l2,l3,l4,l5,l6,l78'')]) =
     (Return (Response
        ''Sorry, you can not approve more than 20 logged_activities at a go'' 403), db) \<and>
   LoggedActivityApprovalAPI_put ident db (JObj [(''loggedActivitiesIds'', JStr ''l1'')]) =
     (Return (Response
        ''A List/Array with at least one logged activity id is needed!'' 400), db)"
  by (simp add: LoggedActivityApprovalAPI_put_def)

subsection \<open>The ledger\<close>

lemma post_untouched:
  "societies (snd (LoggedActivitiesAPI_post db today new_uuid current_user payload)) = societies db \<and>
   newly_approved db (snd (LoggedActivitiesAPI_post db today new_uuid current_user payload)) = {}"
  by (auto simp add: LoggedActivitiesAPI_post_def Let_def
        split: option.splits outcome.splits sum.splits if_splits)

lemma edit_untouched:
  "societies (snd (LoggedActivityAPI_put db today current_user i payload)) = societies db \<and>
   newly_approved db (snd (LoggedActivityAPI_put db today current_user i payload)) = {}"
  by (auto simp add: LoggedActivityAPI_put_def Let_def own_logged_activity_def
        split: option.splits outcome.splits sum.splits if_splits dest: query_get_Some)

lemma delete_untouched:
  "societies (snd (LoggedActivityAPI_delete db current_user i)) = societies db \<and>
   newly_approved db (snd (LoggedActivityAPI_delete db current_user i)) = {}"
  by (auto simp add: LoggedActivityAPI_delete_def split: option.splits if_splits)

lemma secretary_untouched:
  "societies (snd (SecretaryReviewLoggedActivityAPI_put db i payload)) = societies db \<and>
   newly_approved db (snd (SecretaryReviewLoggedActivityAPI_put db i payload)) = {}"
  by (auto simp add: SecretaryReviewLoggedActivityAPI_put_def
        split: option.splits sum.splits bool.splits json.splits if_splits)

lemma rejection_untouched:
  "societies (snd (LoggedActivityRejectionAPI_put db i)) = societies db \<and>
   newly_approved db (snd (LoggedActivityRejectionAPI_put db i)) = {}"
  by (auto simp add: LoggedActivityRejectionAPI_put_def split: option.splits if_splits)

lemma info_untouched:
  "snd (LoggedActivityInfoAPI_put db i payload) = db"
  by (simp add: LoggedActivityInfoAPI_put_def split: option.splits sum.splits)

lemma redeem_untouched:
  "societies (snd (PointRedemptionAPI_post db new_uuid current_user payload)) = societies db \<and>
   logged_activities (snd (PointRedemptionAPI_post db new_uuid current_user payload)) =
     logged_activities db"
  by (simp add: PointRedemptionAPI_post_def Let_def split: sum.splits)

lemma edit_redemption_untouched:
  "societies (snd (PointRedemptionAPI_put db redeem_id payload)) = societies db \<and>
   logged_activities (snd (PointRedemptionAPI_put db redeem_id payload)) = logged_activities db"
  by (simp add: PointRedemptionAPI_put_def Let_def split: sum.splits option.splits)

lemma delete_redemption_untouched:
  "societies (snd (PointRedemptionAPI_delete db redeem_id)) = societies db \<and>
   logged_activities (snd (PointRedemptionAPI_delete db redeem_id)) = logged_activities db"
  by (simp add: PointRedemptionAPI_delete_def split: option.splits)

lemma approval_put_cases:
  "snd (LoggedActivityApprovalAPI_put ident db payload) = db \<or>
   (\<exists>ids u. unique_activities_ids ident db ids [] = Inr u \<and>
            snd (LoggedActivityApprovalAPI_put ident db payload) = snd (approve_each db u))"
  by (auto simp add: LoggedActivityApprovalAPI_put_def
        split: sum.splits json.splits prod.splits option.splits)
     (metis snd_conv)+

lemma approval_effect:
  assumes "societies db s = Some soc"
  shows "\<exists>soc'. societies (snd (LoggedActivityApprovalAPI_put ident db payload)) s = Some soc' \<and>
           db_total_points soc' =
             db_total_points soc +
             (\<Sum>i\<in>newly_approved db (snd (LoggedActivityApprovalAPI_put ident db payload)).
                credit_to db s i) \<and>
           db_used_points soc' = db_used_points soc"
proof -
  let ?db' = "snd (LoggedActivityApprovalAPI_put ident db payload)"
  from approval_put_cases [of ident db payload] show ?thesis
  proof
    assume same: "?db' = db"
    have "newly_approved db db = {}" by auto
    then have "(\<Sum>i\<in>newly_approved db db. credit_to db s i) = 0"
      by (simp only: sum.empty)
    with assms show ?thesis unfolding same by simp
  next
    assume "\<exists>ids u. unique_activities_ids ident db ids [] = Inr u \<and> ?db' = snd (approve_each db u)"
    then obtain ids u where u: "unique_activities_ids ident db ids [] = Inr u"
      and run: "?db' = snd (approve_each db u)" by blast
    from unique_activities_ids_pending [OF u] have du: "distinct u"
      and pu: "\<forall>i\<in>set u. \<exists>la. logged_activities db i = Some la \<and> pending_item la"
      by simp_all
    from pu have sub: "set u \<subseteq> dom (logged_activities db)" by auto
    from approve_each_effect [OF du sub] obtain ys where
      dys: "distinct ys" and sys: "set ys \<subseteq> set u"
      and eff: "snd (approve_each db u) =
         db\<lparr>logged_activities :=
              (\<lambda>i. if i \<in> set ys
                   then map_option (\<lambda>la. la\<lparr>la_status := ''approved''\<rparr>) (logged_activities db i)
                   else logged_activities db i),
            societies :=
              (\<lambda>s. map_option
                     (\<lambda>soc. soc\<lparr>db_total_points :=
                               db_total_points soc + (\<Sum>i\<leftarrow>ys. credit_to db s i)\<rparr>)
                     (societies db s))\<rparr>"
      by (elim exE conjE)
    have new: "newly_approved db ?db' = set ys"
    proof (rule set_eqI)
      fix i
      have row: "logged_activities ?db' i =
                   (if i \<in> set ys
                    then map_option (\<lambda>la. la\<lparr>la_status := ''approved''\<rparr>) (logged_activities db i)
                    else logged_activities db i)"
        unfolding run eff by simp
      show "i \<in> newly_approved db ?db' \<longleftrightarrow> i \<in> set ys"
      proof (cases "i \<in> set ys")
        case True
        with pu sys obtain la where "logged_activities db i = Some la" and "pending_item la"
          by blast
        with True show ?thesis unfolding mem_Collect_eq row by simp
      next
        case False
        then show ?thesis unfolding mem_Collect_eq row by auto
      qed
    qed
    have "(\<Sum>i\<leftarrow>ys. credit_to db s i) = (\<Sum>i\<in>set ys. credit_to db s i)"
      by (rule sum_list_distinct_conv_sum_set [OF dys])
    then show ?thesis
      unfolding new unfolding run eff using assms by simp
  qed
qed

lemma redemption_effect:
  assumes "societies db s = Some soc"
    and "PointRedemptionRequestNumeration_put db redeem_id payload = (res, db')"
  shows "logged_activities db' = logged_activities db \<and>
         (\<exists>soc'. societies db' s = Some soc' \<and>
            db_total_points soc' = db_total_points soc \<and>
            db_used_points soc' =
              db_used_points soc + redeemed db s (VerifyRedemption redeem_id payload) res)"
  using assms
  by (auto simp add: PointRedemptionRequestNumeration_put_def set_used_points_def query_get_def
        truthy_str_def
        split: sum.splits exn.splits option.splits if_splits json.splits)

lemma credit_sum_nonneg:
  assumes "\<forall>i la. logged_activities db i = Some la \<longrightarrow> 0 \<le> la_value la"
  shows "0 \<le> (\<Sum>i\<in>A. credit_to db s i)"
  using assms by (intro sum_nonneg) (auto split: option.splits)

lemma redeemed_nonneg:
  assumes "\<forall>i r n. redemptions db i = Some r \<and> rr_value r = JNum n \<longrightarrow> 0 \<le> n"
  shows "0 \<le> redeemed db s req res"
  using assms
  by (auto split: request.splits option.splits json.splits dest!: query_get_Some)

text \<open>
  C5, as the code has it. After every operation, a society's remaining points are its
  total points minus its used points. The approval of logged activities adds to the total
  points exactly the stored values of the society's items it turns to approved, and the
  approval of a redemption request adds exactly the request's value to the used points of
  the requester's society; no other operation changes the total points, and no other
  operation changes the used points. So the total points do not decrease when no stored
  logged activity has a negative value, the used points do not decrease when no stored
  redemption request has a negative value, and an operation that lowers the remaining
  points is then the approval of a redemption request. The operations are the handlers of
  logged_activities.py and redemption_requests.py that are not a \<open>get\<close>.
\<close>

theorem ledger_accumulates:
  assumes "societies db s = Some soc" and "handle ident db today req = (res, db')"
  shows "\<exists>soc'. societies db' s = Some soc' \<and>
           remaining_points soc' = total_points soc' - used_points soc' \<and>
           total_points soc' =
             total_points soc + (\<Sum>i\<in>newly_approved db db'. credit_to db s i) \<and>
           used_points soc' = used_points soc + redeemed db s req res \<and>
           ((\<forall>payload. req \<noteq> ApproveLoggedActivities payload) \<longrightarrow>
              total_points soc' = total_points soc) \<and>
           ((\<forall>redeem_id payload. req \<noteq> VerifyRedemption redeem_id payload) \<longrightarrow>
              used_points soc' = used_points soc) \<and>
           ((\<forall>i la. logged_activities db i = Some la \<longrightarrow> 0 \<le> la_value la) \<longrightarrow>
              total_points soc \<le> total_points soc') \<and>
           ((\<forall>i r n. redemptions db i = Some r \<and> rr_value r = JNum n \<longrightarrow> 0 \<le> n) \<longrightarrow>
              used_points soc \<le> used_points soc') \<and>
           ((\<forall>i la. logged_activities db i = Some la \<longrightarrow> 0 \<le> la_value la) \<and>
            remaining_points soc' < remaining_points soc \<longrightarrow>
              (\<exists>redeem_id payload. req = VerifyRedemption redeem_id payload))"
proof -
  have core: "\<exists>soc'. societies db' s = Some soc' \<and>
           db_total_points soc' =
             db_total_points soc + (\<Sum>i\<in>newly_approved db db'. credit_to db s i) \<and>
           db_used_points soc' = db_used_points soc + redeemed db s req res \<and>
           ((\<forall>payload. req \<noteq> ApproveLoggedActivities payload) \<longrightarrow>
              db_total_points soc' = db_total_points soc)"
  proof (cases req)
    case (LogActivity new_uuid current_user payload)
    with assms post_untouched [of db today new_uuid current_user payload] show ?thesis
      by (simp only: handle.simps) (auto simp only: snd_conv sum.empty request.case add_0_right)
  next
    case (EditLoggedActivity current_user i payload)
    with assms edit_untouched [of db today current_user i payload] show ?thesis
      by (simp only: handle.simps) (auto simp only: snd_conv sum.empty request.case add_0_right)
  next
    case (DeleteLoggedActivity current_user i)
    with assms delete_untouched [of db current_user i] show ?thesis
      by (simp only: handle.simps) (auto simp only: snd_conv sum.empty request.case add_0_right)
  next
    case (SecretaryReview i payload)
    with assms secretary_untouched [of db i payload] show ?thesis
      by (simp only: handle.simps) (auto simp only: snd_conv sum.empty request.case add_0_right)
  next
    case (ApproveLoggedActivities payload)
    with assms approval_effect [OF assms(1), of ident payload] show ?thesis
      by (simp only: handle.simps) (auto simp only: snd_conv request.case add_0_right request.inject)
  next
    case (RejectLoggedActivity i)
    with assms rejection_untouched [of db i] show ?thesis
      by (simp only: handle.simps) (auto simp only: snd_conv sum.empty request.case add_0_right)
  next
    case (RequestMoreInfo i payload)
    have "newly_approved db db = {}" by auto
    then have "(\<Sum>i\<in>newly_approved db db. credit_to db s i) = 0" by (simp only: sum.empty)
    with RequestMoreInfo assms info_untouched [of db i payload] show ?thesis
      by (simp only: handle.simps) (auto simp only: snd_conv request.case add_0_right)
  next
    case (RedeemPoints new_uuid current_user payload)
    from redeem_untouched [of db new_uuid current_user payload] RedeemPoints assms(2)
    have soc: "societies db' = societies db" and la: "logged_activities db' = logged_activities db"
      by (auto simp only: handle.simps snd_conv)
    have "newly_approved db db' = {}" unfolding la by auto
    then have "(\<Sum>i\<in>newly_approved db db'. credit_to db s i) = 0" by (simp only: sum.empty)
    with RedeemPoints assms(1) soc show ?thesis
      by (auto simp only: request.case add_0_right)
  next
    case (EditRedemption redeem_id payload)
    from edit_redemption_untouched [of db redeem_id payload] EditRedemption assms(2)
    have soc: "societies db' = societies db" and la: "logged_activities db' = logged_activities db"
      by (auto simp only: handle.simps snd_conv)
    have "newly_approved db db' = {}" unfolding la by auto
    then have "(\<Sum>i\<in>newly_approved db db'. credit_to db s i) = 0" by (simp only: sum.empty)
    with EditRedemption assms(1) soc show ?thesis
      by (auto simp only: request.case add_0_right)
  next
    case (DeleteRedemption redeem_id)
    from delete_redemption_untouched [of db redeem_id] DeleteRedemption assms(2)
    have soc: "societies db' = societies db" and la: "logged_activities db' = logged_activities db"
      by (auto simp only: handle.simps snd_conv)
    have "newly_approved db db' = {}" unfolding la by auto
    then have "(\<Sum>i\<in>newly_approved db db'. credit_to db s i) = 0" by (simp only: sum.empty)
    with DeleteRedemption assms(1) soc show ?thesis
      by (auto simp only: request.case add_0_right)
  next
    case (VerifyRedemption redeem_id payload)
    with assms(2) have run: "PointRedemptionRequestNumeration_put db redeem_id payload = (res, db')"
      by (simp only: handle.simps)
    from redemption_effect [OF assms(1) run] obtain soc' where
      la: "logged_activities db' = logged_activities db"
      and s': "societies db' s = Some soc'"
      and t: "db_total_points soc' = db_total_points soc"
      and u: "db_used_points soc' =
                db_used_points soc + redeemed db s (VerifyRedemption redeem_id payload) res"
      by blast
    have "newly_approved db db' = {}" unfolding la by auto
    then have "(\<Sum>i\<in>newly_approved db db'. credit_to db s i) = 0" by (simp only: sum.empty)
    with s' t u VerifyRedemption show ?thesis by simp
  qed
  then obtain soc' where s': "societies db' s = Some soc'"
    and t: "db_total_points soc' =
              db_total_points soc + (\<Sum>i\<in>newly_approved db db'. credit_to db s i)"
    and u: "db_used_points soc' = db_used_points soc + redeemed db s req res"
    and o: "(\<forall>payload. req \<noteq> ApproveLoggedActivities payload) \<longrightarrow>
              db_total_points soc' = db_total_points soc"
    by blast
  have u0: "(\<forall>redeem_id payload. req \<noteq> VerifyRedemption redeem_id payload) \<longrightarrow>
              redeemed db s req res = 0"
    by (cases req) simp_all
  have tm: "(\<forall>i la. logged_activities db i = Some la \<longrightarrow> 0 \<le> la_value la) \<longrightarrow>
              db_total_points soc \<le> db_total_points soc'"
  proof
    assume "\<forall>i la. logged_activities db i = Some la \<longrightarrow> 0 \<le> la_value la"
    from credit_sum_nonneg [OF this, where A = "newly_approved db db'" and s = s]
    show "db_total_points soc \<le> db_total_points soc'" unfolding t by linarith
  qed
  have um: "(\<forall>i r n. redemptions db i = Some r \<and> rr_value r = JNum n \<longrightarrow> 0 \<le> n) \<longrightarrow>
              db_used_points soc \<le> db_used_points soc'"
  proof
    assume "\<forall>i r n. redemptions db i = Some r \<and> rr_value r = JNum n \<longrightarrow> 0 \<le> n"
    from redeemed_nonneg [OF this, where s = s and req = req and res = res]
    show "db_used_points soc \<le> db_used_points soc'" unfolding u by linarith
  qed
  have lw: "(\<forall>i la. logged_activities db i = Some la \<longrightarrow> 0 \<le> la_value la) \<and>
            db_total_points soc' - db_used_points soc' <
              db_total_points soc - db_used_points soc \<longrightarrow>
              (\<exists>redeem_id payload. req = VerifyRedemption redeem_id payload)"
  proof
    assume h: "(\<forall>i la. logged_activities db i = Some la \<longrightarrow> 0 \<le> la_value la) \<and>
               db_total_points soc' - db_used_points soc' <
                 db_total_points soc - db_used_points soc"
    then have "db_total_points soc \<le> db_total_points soc'" using tm by blast
    with h have "db_used_points soc < db_used_points soc'" by linarith
    with u have "redeemed db s req res \<noteq> 0" by linarith
    with u0 show "\<exists>redeem_id payload. req = VerifyRedemption redeem_id payload" by blast
  qed
  show ?thesis
    apply (rule exI [of _ soc'])
    using s' t u o u0 tm um lw
    by (simp only: total_points_def used_points_def remaining_points_def) auto
qed

theorem ledger_accumulates_witness:
  "societies review_db ''s1'' = Some \<lparr>db_total_points = 100, db_used_points = 30\<rparr> \<and>
   societies
     (snd (handle no_row review_db 1000
        (VerifyRedemption (Some ''r1'') (status_payload ''approved'')))) ''s1'' =
     Some \<lparr>db_total_points = 100, db_used_points = 70\<rparr> \<and>
   map_option remaining_points
     (societies
        (snd (handle no_row review_db 1000
           (VerifyRedemption (Some ''r1'') (status_payload ''approved'')))) ''s1'') = Some 30 \<and>
   societies
     (snd (handle no_row review_db 1000 (ApproveLoggedActivities (ids_payload [''l1'', ''l2''])))) ''s1'' =
     Some \<lparr>db_total_points = 150, db_used_points = 30\<rparr>"
proof -
  have c: "societies review_db ''s1'' = Some \<lparr>db_total_points = 100, db_used_points = 30\<rparr>"
    by (simp add: review_db_def example_db_def)
  have r1: "handle no_row review_db 1000
              (VerifyRedemption (Some ''r1'') (status_payload ''approved'')) =
            (fst (handle no_row review_db 1000
                    (VerifyRedemption (Some ''r1'') (status_payload ''approved''))),
             snd (handle no_row review_db 1000
                    (VerifyRedemption (Some ''r1'') (status_payload ''approved''))))"
    by simp
  have r2: "handle no_row review_db 1000 (ApproveLoggedActivities (ids_payload [''l1'', ''l2''])) =
            (fst (handle no_row review_db 1000
                    (ApproveLoggedActivities (ids_payload [''l1'', ''l2'']))),
             snd (handle no_row review_db 1000
                    (ApproveLoggedActivities (ids_payload [''l1'', ''l2'']))))"
    by simp
  show ?thesis
    using c ledger_accumulates [OF c r1] ledger_accumulates [OF c r2]
    by (simp add: example_eval PointRedemptionRequestNumeration_put_def set_used_points_def
          LoggedActivityApprovalAPI_put_def LoggedActivity_query_get_def set_total_points_def
          remaining_points_def total_points_def used_points_def)
qed

text \<open>
  C5 as stated fails: values are not checked for their sign. A submission of interviews
  with -3 participants is worth -30 points, and its approval lowers the society's total
  points from 100 to 70.
\<close>

theorem negative_value_lowers_total_points:
  "map_option total_points (societies example_db ''s1'') = Some 100 \<and>
   map_option la_value (logged_activities negative_logged ''l9'') = Some (- 30) \<and>
   map_option la_status (logged_activities negative_reviewed ''l9'') = Some ''pending'' \<and>
   map_option la_status (logged_activities negative_approved ''l9'') = Some ''approved'' \<and>
   map_option total_points (societies negative_approved ''s1'') = Some 70"
  by (simp add: example_eval negative_logged_def negative_reviewed_def negative_approved_def
       LoggedActivitiesAPI_post_def validate_logged_activity_def multi_participant_activities_def
        parse_log_activity_fields_def parse_log_activity_fields_end_def
        SecretaryReviewLoggedActivityAPI_put_def LoggedActivityApprovalAPI_put_def
        LoggedActivity_query_get_def set_total_points_def total_points_def)

end
